theory Spec2Isabelle
  imports Main
begin

section \<open>Values and rows (shared/schema.ts)\<close>

text \<open>
  Values that come back from \<^verbatim>\<open>JSON.parse\<close> and that are stored in \<^verbatim>\<open>jsonb\<close>
  columns. An object is the list of its properties; a number is an integer here.
\<close>

datatype json =
    JNull
  | JBool bool
  | JNum int
  | JStr string
  | JArr "json list"
  | JObj "(string \<times> json) list"

type_synonym timestamp = nat

text \<open>Table \<^verbatim>\<open>folders\<close>. \<^verbatim>\<open>parent_id\<close> is nullable and carries no foreign key.\<close>

record folder =
  folder_id :: nat
  folder_userId :: string
  folder_name :: string
  parentId :: "nat option"
  path :: string
  folder_createdAt :: "timestamp option"
  folder_updatedAt :: "timestamp option"

text \<open>Table \<^verbatim>\<open>files\<close>. The nullable columns are options; \<^verbatim>\<open>tags\<close> holds the value
  that was written (the code writes whatever \<^verbatim>\<open>generateTags\<close> returned).\<close>

record fileRec =
  file_id :: nat
  file_userId :: string
  folderId :: "nat option"
  file_name :: string
  originalName :: string
  file_size :: nat
  mimeType :: string
  filePath :: string
  ocrText :: "string option"
  aiSummary :: "string option"
  tags :: "json option"
  metadata :: json
  processingStatus :: "string option"
  file_createdAt :: "timestamp option"
  file_updatedAt :: "timestamp option"

text \<open>Table \<^verbatim>\<open>ai_commands\<close>. A null \<^verbatim>\<open>result\<close> is \<^const>\<open>JNull\<close>.\<close>

record aiCommand =
  cmd_id :: nat
  cmd_userId :: string
  command :: string
  result :: json
  status :: "string option"
  cmd_createdAt :: "timestamp option"

text \<open>\<^verbatim>\<open>InsertFolder\<close>, \<^verbatim>\<open>InsertFile\<close>, \<^verbatim>\<open>InsertAiCommand\<close>: the fields the callers pass.\<close>

record insertFolder =
  ins_userId :: string
  ins_name :: string
  ins_parentId :: "nat option"
  ins_path :: string

record insertFile =
  insf_userId :: string
  insf_folderId :: "nat option"
  insf_name :: string
  insf_originalName :: string
  insf_size :: nat
  insf_mimeType :: string
  insf_filePath :: string
  insf_processingStatus :: string

record insertAiCommand =
  insc_userId :: string
  insc_command :: string
  insc_status :: string

text \<open>
  \<^verbatim>\<open>Partial<Folder>\<close>, \<^verbatim>\<open>Partial<File>\<close>, \<^verbatim>\<open>Partial<AiCommand>\<close>: a field that is
  \<^const>\<open>None\<close> is absent from the update object and its column is left alone. Only the
  fields that the modelled callers set are listed.
\<close>

record folderUpdate =
  upd_name :: "string option"
  upd_parentId :: "nat option option"
  upd_path :: "string option"

record fileUpdate =
  upd_ocrText :: "string option"
  upd_aiSummary :: "string option"
  upd_tags :: "json option"
  upd_processingStatus :: "string option"

record aiCommandUpdate =
  upd_result :: "json option"
  upd_status :: "string option"

section \<open>The database and the outside world\<close>

text \<open>
  A table is the list of its rows; \<^verbatim>\<open>serial\<close> keys come from a counter per table
  that holds the next key.
\<close>

record db =
  folders :: "folder list"
  files :: "fileRec list"
  aiCommands :: "aiCommand list"
  next_folder_id :: nat
  next_file_id :: nat
  next_cmd_id :: nat

definition init_db :: db where
  "init_db = \<lparr>folders = [], files = [], aiCommands = [],
              next_folder_id = 1, next_file_id = 1, next_cmd_id = 1\<rparr>"

datatype exn = Error string

text \<open>The storage calls, as the database sees them.\<close>

datatype db_op =
    CreateFolder insertFolder
  | GetFoldersByUserId string
  | GetFolderById nat
  | UpdateFolder nat folderUpdate
  | DeleteFolder nat
  | CreateFile insertFile
  | GetFilesByFolderId nat
  | UpdateFile nat fileUpdate
  | CreateAiCommand insertAiCommand
  | UpdateAiCommand nat aiCommandUpdate

text \<open>The three prompts of services/openai.ts, by the values spliced into them.\<close>

datatype prompt =
    SummarizePrompt string string
  | TagsPrompt string string
  | CommandPrompt string

text \<open>
  \<^verbatim>\<open>openai.chat.completions.create\<close> throws, or returns choices; a choice is its
  \<^verbatim>\<open>message.content\<close>, which may be null.
\<close>

datatype chat_result = ChatThrows | ChatReturns "string option list"

text \<open>
  Everything the code calls but does not define: the clock (\<^verbatim>\<open>new Date()\<close>,
  \<^verbatim>\<open>defaultNow()\<close>), whether the database throws on a call, the OCR worker
  (\<^const>\<open>None\<close>: \<^verbatim>\<open>initialize\<close> or \<^verbatim>\<open>recognize\<close> throws), the chat endpoint, and the
  built-ins \<^verbatim>\<open>String.prototype.trim\<close> and \<^verbatim>\<open>JSON.parse\<close> (\<^const>\<open>None\<close>: SyntaxError).
\<close>

record env =
  now :: timestamp
  db_throws :: "db_op \<Rightarrow> bool"
  recognize :: "string \<Rightarrow> string option"
  chat_create :: "prompt \<Rightarrow> chat_result"
  String_trim :: "string \<Rightarrow> string"
  JSON_parse :: "string \<Rightarrow> json option"

section \<open>DatabaseStorage (server/storage.ts)\<close>

text \<open>
  Every method awaits one statement. The result is \<^const>\<open>Inl\<close> when the statement
  throws, and the returned value with the new database otherwise. The \<^verbatim>\<open>ORDER BY\<close> of
  the two list queries is left out: their callers here only filter and count.
\<close>

definition createFolder :: "env \<Rightarrow> insertFolder \<Rightarrow> db \<Rightarrow> exn + (folder \<times> db)" where
  "createFolder e ins s =
     (if db_throws e (CreateFolder ins) then Inl (Error ''db'')
      else
        let row = \<lparr>folder_id = next_folder_id s, folder_userId = ins_userId ins,
                   folder_name = ins_name ins, parentId = ins_parentId ins,
                   path = ins_path ins, folder_createdAt = Some (now e),
                   folder_updatedAt = Some (now e)\<rparr>
        in Inr (row, s\<lparr>folders := folders s @ [row],
                        next_folder_id := Suc (next_folder_id s)\<rparr>))"

definition getFoldersByUserId :: "env \<Rightarrow> string \<Rightarrow> db \<Rightarrow> exn + folder list" where
  "getFoldersByUserId e userId s =
     (if db_throws e (GetFoldersByUserId userId) then Inl (Error ''db'')
      else Inr (filter (\<lambda>f. folder_userId f = userId) (folders s)))"

definition getFolderById :: "env \<Rightarrow> nat \<Rightarrow> db \<Rightarrow> exn + folder option" where
  "getFolderById e i s =
     (if db_throws e (GetFolderById i) then Inl (Error ''db'')
      else Inr (find (\<lambda>f. folder_id f = i) (folders s)))"

definition apply_folderUpdate :: "timestamp \<Rightarrow> folderUpdate \<Rightarrow> folder \<Rightarrow> folder" where
  "apply_folderUpdate t u f =
     f\<lparr>folder_name := (case upd_name u of None \<Rightarrow> folder_name f | Some v \<Rightarrow> v),
       parentId := (case upd_parentId u of None \<Rightarrow> parentId f | Some v \<Rightarrow> v),
       path := (case upd_path u of None \<Rightarrow> path f | Some v \<Rightarrow> v),
       folder_updatedAt := Some t\<rparr>"

definition updateFolder ::
  "env \<Rightarrow> nat \<Rightarrow> folderUpdate \<Rightarrow> db \<Rightarrow> exn + (folder option \<times> db)" where
  "updateFolder e i u s =
     (if db_throws e (UpdateFolder i u) then Inl (Error ''db'')
      else
        let rows = map (\<lambda>f. if folder_id f = i then apply_folderUpdate (now e) u f else f)
                       (folders s)
        in Inr (find (\<lambda>f. folder_id f = i) rows, s\<lparr>folders := rows\<rparr>))"

definition deleteFolder :: "env \<Rightarrow> nat \<Rightarrow> db \<Rightarrow> exn + db" where
  "deleteFolder e i s =
     (if db_throws e (DeleteFolder i) then Inl (Error ''db'')
      else Inr (s\<lparr>folders := filter (\<lambda>f. folder_id f \<noteq> i) (folders s)\<rparr>))"

definition createFile :: "env \<Rightarrow> insertFile \<Rightarrow> db \<Rightarrow> exn + (fileRec \<times> db)" where
  "createFile e ins s =
     (if db_throws e (CreateFile ins) then Inl (Error ''db'')
      else
        let row = \<lparr>file_id = next_file_id s, file_userId = insf_userId ins,
                   folderId = insf_folderId ins, file_name = insf_name ins,
                   originalName = insf_originalName ins, file_size = insf_size ins,
                   mimeType = insf_mimeType ins, filePath = insf_filePath ins,
                   ocrText = None, aiSummary = None, tags = None, metadata = JNull,
                   processingStatus = Some (insf_processingStatus ins),
                   file_createdAt = Some (now e), file_updatedAt = Some (now e)\<rparr>
        in Inr (row, s\<lparr>files := files s @ [row], next_file_id := Suc (next_file_id s)\<rparr>))"

definition getFilesByFolderId :: "env \<Rightarrow> nat \<Rightarrow> db \<Rightarrow> exn + fileRec list" where
  "getFilesByFolderId e i s =
     (if db_throws e (GetFilesByFolderId i) then Inl (Error ''db'')
      else Inr (filter (\<lambda>f. folderId f = Some i) (files s)))"

definition apply_fileUpdate :: "timestamp \<Rightarrow> fileUpdate \<Rightarrow> fileRec \<Rightarrow> fileRec" where
  "apply_fileUpdate t u f =
     f\<lparr>ocrText := (case upd_ocrText u of None \<Rightarrow> ocrText f | Some v \<Rightarrow> Some v),
       aiSummary := (case upd_aiSummary u of None \<Rightarrow> aiSummary f | Some v \<Rightarrow> Some v),
       tags := (case upd_tags u of None \<Rightarrow> tags f | Some v \<Rightarrow> Some v),
       processingStatus :=
         (case upd_processingStatus u of None \<Rightarrow> processingStatus f | Some v \<Rightarrow> Some v),
       file_updatedAt := Some t\<rparr>"

definition updateFile ::
  "env \<Rightarrow> nat \<Rightarrow> fileUpdate \<Rightarrow> db \<Rightarrow> exn + (fileRec option \<times> db)" where
  "updateFile e i u s =
     (if db_throws e (UpdateFile i u) then Inl (Error ''db'')
      else
        let rows = map (\<lambda>f. if file_id f = i then apply_fileUpdate (now e) u f else f)
                       (files s)
        in Inr (find (\<lambda>f. file_id f = i) rows, s\<lparr>files := rows\<rparr>))"

definition createAiCommand ::
  "env \<Rightarrow> insertAiCommand \<Rightarrow> db \<Rightarrow> exn + (aiCommand \<times> db)" where
  "createAiCommand e ins s =
     (if db_throws e (CreateAiCommand ins) then Inl (Error ''db'')
      else
        let row = \<lparr>cmd_id = next_cmd_id s, cmd_userId = insc_userId ins,
                   command = insc_command ins, result = JNull,
                   status = Some (insc_status ins), cmd_createdAt = Some (now e)\<rparr>
        in Inr (row, s\<lparr>aiCommands := aiCommands s @ [row],
                        next_cmd_id := Suc (next_cmd_id s)\<rparr>))"

definition apply_aiCommandUpdate :: "aiCommandUpdate \<Rightarrow> aiCommand \<Rightarrow> aiCommand" where
  "apply_aiCommandUpdate u c =
     c\<lparr>result := (case upd_result u of None \<Rightarrow> result c | Some v \<Rightarrow> v),
       status := (case upd_status u of None \<Rightarrow> status c | Some v \<Rightarrow> Some v)\<rparr>"

definition updateAiCommand ::
  "env \<Rightarrow> nat \<Rightarrow> aiCommandUpdate \<Rightarrow> db \<Rightarrow> exn + (aiCommand option \<times> db)" where
  "updateAiCommand e i u s =
     (if db_throws e (UpdateAiCommand i u) then Inl (Error ''db'')
      else
        let rows = map (\<lambda>c. if cmd_id c = i then apply_aiCommandUpdate u c else c)
                       (aiCommands s)
        in Inr (find (\<lambda>c. cmd_id c = i) rows, s\<lparr>aiCommands := rows\<rparr>))"

text \<open>Reading one row back, as a later query would.\<close>

definition file_row :: "db \<Rightarrow> nat \<Rightarrow> fileRec option" where
  "file_row s i = find (\<lambda>f. file_id f = i) (files s)"

definition folder_row :: "db \<Rightarrow> nat \<Rightarrow> folder option" where
  "folder_row s i = find (\<lambda>f. folder_id f = i) (folders s)"

definition cmd_row :: "db \<Rightarrow> nat \<Rightarrow> aiCommand option" where
  "cmd_row s i = find (\<lambda>c. cmd_id c = i) (aiCommands s)"

section \<open>OCRService (server/services/ocr.ts)\<close>

text \<open>
  \<^verbatim>\<open>extractText\<close>: the trimmed text of the worker, or the error it throws again when
  the worker fails.
\<close>

definition extractText :: "env \<Rightarrow> string \<Rightarrow> exn + string" where
  "extractText e fp =
     (case recognize e fp of
        None \<Rightarrow> Inl (Error ''Failed to extract text from document'')
      | Some t \<Rightarrow> Inr (String_trim e t))"

section \<open>OpenAIService (server/services/openai.ts)\<close>

text \<open>\<^verbatim>\<open>response.choices[0].message.content\<close>: a TypeError when there is no choice.\<close>

definition first_content :: "chat_result \<Rightarrow> exn + string option" where
  "first_content r =
     (case r of
        ChatThrows \<Rightarrow> Inl (Error ''chat'')
      | ChatReturns [] \<Rightarrow> Inl (Error ''TypeError'')
      | ChatReturns (c # cs) \<Rightarrow> Inr c)"

text \<open>\<^verbatim>\<open>JSON.parse(content)\<close>; a null content is parsed as the text \<^verbatim>\<open>null\<close>.\<close>

definition parse_content :: "env \<Rightarrow> string option \<Rightarrow> exn + json" where
  "parse_content e c =
     (case JSON_parse e (case c of None \<Rightarrow> ''null'' | Some t \<Rightarrow> t) of
        None \<Rightarrow> Inl (Error ''SyntaxError'')
      | Some v \<Rightarrow> Inr v)"

text \<open>Truthiness of a parsed value, as \<^verbatim>\<open>||\<close> tests it.\<close>

fun truthy :: "json \<Rightarrow> bool" where
  "truthy JNull = False"
| "truthy (JBool b) = b"
| "truthy (JNum n) = (n \<noteq> 0)"
| "truthy (JStr t) = (t \<noteq> [])"
| "truthy (JArr xs) = True"
| "truthy (JObj ps) = True"

text \<open>
  \<^verbatim>\<open>result.name\<close>: a TypeError on null, the last property of that name on an object,
  undefined (\<^const>\<open>None\<close>) otherwise.
\<close>

fun get_prop :: "json \<Rightarrow> string \<Rightarrow> exn + json option" where
  "get_prop JNull k = Inl (Error ''TypeError'')"
| "get_prop (JObj ps) k = Inr (map_of (rev ps) k)"
| "get_prop v k = Inr None"

text \<open>The body of the \<^verbatim>\<open>try\<close> of \<^verbatim>\<open>summarizeDocument\<close>, then the function with its \<^verbatim>\<open>catch\<close>.\<close>

definition summarizeDocument_try :: "env \<Rightarrow> string \<Rightarrow> string \<Rightarrow> exn + string" where
  "summarizeDocument_try e txt fileName =
     (case first_content (chat_create e (SummarizePrompt fileName txt)) of
        Inl err \<Rightarrow> Inl err
      | Inr c \<Rightarrow>
          Inr (case c of
                 None \<Rightarrow> ''Unable to generate summary''
               | Some t \<Rightarrow> if t \<noteq> [] then t else ''Unable to generate summary''))"

definition summarizeDocument :: "env \<Rightarrow> string \<Rightarrow> string \<Rightarrow> exn + string" where
  "summarizeDocument e txt fileName =
     (case summarizeDocument_try e txt fileName of
        Inl err \<Rightarrow> Inr ''Summary generation failed''
      | Inr t \<Rightarrow> Inr t)"

definition generateTags_try :: "env \<Rightarrow> string \<Rightarrow> string \<Rightarrow> exn + json" where
  "generateTags_try e txt fileName =
     (case first_content (chat_create e (TagsPrompt fileName txt)) of
        Inl err \<Rightarrow> Inl err
      | Inr c \<Rightarrow>
          (case parse_content e c of
             Inl err \<Rightarrow> Inl err
           | Inr res \<Rightarrow>
               (case get_prop res ''tags'' of
                  Inl err \<Rightarrow> Inl err
                | Inr None \<Rightarrow> Inr (JArr [])
                | Inr (Some v) \<Rightarrow> Inr (if truthy v then v else JArr []))))"

definition generateTags :: "env \<Rightarrow> string \<Rightarrow> string \<Rightarrow> exn + json" where
  "generateTags e txt fileName =
     (case generateTags_try e txt fileName of
        Inl err \<Rightarrow> Inr (JArr [])
      | Inr v \<Rightarrow> Inr v)"

text \<open>
  What a background call did: the calls it made to its collaborators, in order, and
  whether its promise resolved or rejected.
\<close>

datatype event =
    ExtractText string
  | SummarizeDocument string string
  | GenerateTags string string
  | StorageUpdateFile nat fileUpdate
  | ChatCreate prompt
  | StorageUpdateAiCommand nat aiCommandUpdate

datatype outcome = Resolved | Rejected exn

definition completed_update :: "json \<Rightarrow> aiCommandUpdate" where
  "completed_update res = \<lparr>upd_result = Some res, upd_status = Some ''completed''\<rparr>"

definition failed_update :: aiCommandUpdate where
  "failed_update =
     \<lparr>upd_result = Some (JObj [(''error'', JStr ''Failed to process command'')]),
      upd_status = Some ''failed''\<rparr>"

text \<open>
  The \<^verbatim>\<open>try\<close> of \<^verbatim>\<open>processCommand\<close>: the chat call and the parse of its answer, then
  the write of the parsed result with status completed.
\<close>

definition command_result :: "env \<Rightarrow> string \<Rightarrow> exn + json" where
  "command_result e cmd =
     (case first_content (chat_create e (CommandPrompt cmd)) of
        Inl err \<Rightarrow> Inl err
      | Inr c \<Rightarrow> parse_content e c)"

definition processCommand_try ::
  "env \<Rightarrow> nat \<Rightarrow> string \<Rightarrow> db \<Rightarrow> (exn + db) \<times> event list" where
  "processCommand_try e commandId cmd s =
     (case command_result e cmd of
        Inl err \<Rightarrow> (Inl err, [ChatCreate (CommandPrompt cmd)])
      | Inr res \<Rightarrow>
          (case updateAiCommand e commandId (completed_update res) s of
             Inl err \<Rightarrow>
               (Inl err, [ChatCreate (CommandPrompt cmd),
                          StorageUpdateAiCommand commandId (completed_update res)])
           | Inr (row, s') \<Rightarrow>
               (Inr s', [ChatCreate (CommandPrompt cmd),
                         StorageUpdateAiCommand commandId (completed_update res)])))"

definition processCommand ::
  "env \<Rightarrow> nat \<Rightarrow> string \<Rightarrow> string \<Rightarrow> db \<Rightarrow> outcome \<times> db \<times> event list" where
  "processCommand e commandId cmd userId s =
     (case processCommand_try e commandId cmd s of
        (Inr s', tr) \<Rightarrow> (Resolved, s', tr)
      | (Inl err, tr) \<Rightarrow>
          (case updateAiCommand e commandId failed_update s of
             Inl err' \<Rightarrow>
               (Rejected err', s, tr @ [StorageUpdateAiCommand commandId failed_update])
           | Inr (row, s') \<Rightarrow>
               (Resolved, s', tr @ [StorageUpdateAiCommand commandId failed_update])))"

section \<open>FileProcessor (server/services/fileProcessor.ts)\<close>

record processingOptions =
  processOcr :: bool
  generateSummary :: bool
  autoTag :: bool

definition supportedTypes :: "string list" where
  "supportedTypes =
     [''image/jpeg'', ''image/png'', ''image/gif'', ''image/bmp'', ''image/tiff'',
      ''application/pdf'']"

definition isOCRSupported :: "string \<Rightarrow> bool" where
  "isOCRSupported mt = (mt \<in> set supportedTypes)"

text \<open>
  The three guarded steps of \<^verbatim>\<open>processFile\<close>. Each gives the value its variable holds
  afterwards and the call it made, if any; its inner \<^verbatim>\<open>catch\<close> only logs.
\<close>

definition ocr_step :: "env \<Rightarrow> fileRec \<Rightarrow> processingOptions \<Rightarrow> string \<times> event list" where
  "ocr_step e f options =
     (if processOcr options \<and> isOCRSupported (mimeType f)
      then (case extractText e (filePath f) of
              Inl err \<Rightarrow> ([], [ExtractText (filePath f)])
            | Inr t \<Rightarrow> (t, [ExtractText (filePath f)]))
      else ([], []))"

definition summary_step ::
  "env \<Rightarrow> fileRec \<Rightarrow> processingOptions \<Rightarrow> string \<Rightarrow> string \<times> event list" where
  "summary_step e f options textForAI =
     (if generateSummary options \<and> textForAI \<noteq> []
      then (case summarizeDocument e textForAI (originalName f) of
              Inl err \<Rightarrow> ([], [SummarizeDocument textForAI (originalName f)])
            | Inr t \<Rightarrow> (t, [SummarizeDocument textForAI (originalName f)]))
      else ([], []))"

definition tags_step ::
  "env \<Rightarrow> fileRec \<Rightarrow> processingOptions \<Rightarrow> string \<Rightarrow> json \<times> event list" where
  "tags_step e f options textForAI =
     (if autoTag options \<and> textForAI \<noteq> []
      then (case generateTags e textForAI (originalName f) of
              Inl err \<Rightarrow> (JArr [], [GenerateTags textForAI (originalName f)])
            | Inr v \<Rightarrow> (v, [GenerateTags textForAI (originalName f)]))
      else (JArr [], []))"

definition processed_update :: "string \<Rightarrow> string \<Rightarrow> json \<Rightarrow> fileUpdate" where
  "processed_update ocr summary tgs =
     \<lparr>upd_ocrText = Some ocr, upd_aiSummary = Some summary, upd_tags = Some tgs,
      upd_processingStatus = Some ''completed''\<rparr>"

definition failed_file_update :: fileUpdate where
  "failed_file_update =
     \<lparr>upd_ocrText = None, upd_aiSummary = None, upd_tags = None,
      upd_processingStatus = Some ''failed''\<rparr>"

text \<open>
  The outer \<^verbatim>\<open>try\<close> of \<^verbatim>\<open>processFile\<close>: the three steps in order, which give the
  update object and the calls made, then the write of that object. The steps cannot
  throw out of it; only the write can.
\<close>

definition pipeline_steps ::
  "env \<Rightarrow> fileRec \<Rightarrow> processingOptions \<Rightarrow> fileUpdate \<times> event list" where
  "pipeline_steps e f options =
     (let (ocr, tr1) = ocr_step e f options;
          textForAI = (if ocr \<noteq> [] then ocr else originalName f);
          (summary, tr2) = summary_step e f options textForAI;
          (tgs, tr3) = tags_step e f options textForAI
      in (processed_update ocr summary tgs, tr1 @ tr2 @ tr3))"

definition processFile_try ::
  "env \<Rightarrow> fileRec \<Rightarrow> processingOptions \<Rightarrow> db \<Rightarrow> (exn + db) \<times> event list" where
  "processFile_try e f options s =
     (let (u, tr) = pipeline_steps e f options
      in case updateFile e (file_id f) u s of
           Inl err \<Rightarrow> (Inl err, tr @ [StorageUpdateFile (file_id f) u])
         | Inr (row, s') \<Rightarrow> (Inr s', tr @ [StorageUpdateFile (file_id f) u]))"

definition processFile ::
  "env \<Rightarrow> fileRec \<Rightarrow> processingOptions \<Rightarrow> db \<Rightarrow> outcome \<times> db \<times> event list" where
  "processFile e f options s =
     (case processFile_try e f options s of
        (Inr s', tr) \<Rightarrow> (Resolved, s', tr)
      | (Inl err, tr) \<Rightarrow>
          (case updateFile e (file_id f) failed_file_update s of
             Inl err' \<Rightarrow>
               (Rejected err', s, tr @ [StorageUpdateFile (file_id f) failed_file_update])
           | Inr (row, s') \<Rightarrow>
               (Resolved, s', tr @ [StorageUpdateFile (file_id f) failed_file_update])))"

section \<open>Routes (server/routes.ts)\<close>

text \<open>
  A handler takes the authenticated user, the request and the database, and gives the
  response and the database it leaves. Numeric parameters are given as numbers: the
  \<^verbatim>\<open>:id\<close> of a route is the value of its \<^verbatim>\<open>parseInt\<close>, a \<^verbatim>\<open>parentId\<close> of a JSON body
  is a number or absent or null (\<^const>\<open>None\<close>), and \<^verbatim>\<open>name\<close> and \<^verbatim>\<open>command\<close> are strings.
  A call that the handler starts and does not await is returned as a task.
\<close>

datatype body =
    Message string
  | Success
  | FolderBody "folder option"
  | FilesBody "fileRec list"
  | CommandBody aiCommand

datatype response = Response nat body

datatype task =
    ProcessFile fileRec processingOptions
  | ProcessCommand nat string string

text \<open>\<^verbatim>\<open>parentId || null\<close> on a number that may be absent: zero is falsy.\<close>

definition or_null :: "nat option \<Rightarrow> nat option" where
  "or_null p = (case p of None \<Rightarrow> None | Some n \<Rightarrow> if n \<noteq> 0 then Some n else None)"

text \<open>
  The path both folder handlers build: the name, replaced by the parent's path, a slash
  and the name when \<^verbatim>\<open>parentId\<close> is truthy and the parent row is found.
\<close>

definition build_path :: "env \<Rightarrow> string \<Rightarrow> nat option \<Rightarrow> db \<Rightarrow> exn + string" where
  "build_path e name p s =
     (case p of
        None \<Rightarrow> Inr name
      | Some n \<Rightarrow>
          if n \<noteq> 0
          then (case getFolderById e n s of
                  Inl err \<Rightarrow> Inl err
                | Inr None \<Rightarrow> Inr name
                | Inr (Some parentFolder) \<Rightarrow> Inr (path parentFolder @ ''/'' @ name))
          else Inr name)"

text \<open>\<^verbatim>\<open>POST /api/folders\<close>\<close>

definition post_folders ::
  "env \<Rightarrow> string \<Rightarrow> string \<Rightarrow> nat option \<Rightarrow> db \<Rightarrow> response \<times> db" where
  "post_folders e userId name p s =
     (case build_path e name p s of
        Inl err \<Rightarrow> (Response 500 (Message ''Failed to create folder''), s)
      | Inr pth \<Rightarrow>
          (case createFolder e \<lparr>ins_userId = userId, ins_name = name,
                                ins_parentId = or_null p, ins_path = pth\<rparr> s of
             Inl err \<Rightarrow> (Response 500 (Message ''Failed to create folder''), s)
           | Inr (row, s') \<Rightarrow> (Response 200 (FolderBody (Some row)), s')))"

text \<open>\<^verbatim>\<open>PUT /api/folders/:id\<close>\<close>

definition put_folders ::
  "env \<Rightarrow> nat \<Rightarrow> string \<Rightarrow> nat option \<Rightarrow> db \<Rightarrow> response \<times> db" where
  "put_folders e folderId' name p s =
     (case build_path e name p s of
        Inl err \<Rightarrow> (Response 500 (Message ''Failed to update folder''), s)
      | Inr pth \<Rightarrow>
          (case updateFolder e folderId'
                  \<lparr>upd_name = Some name, upd_parentId = Some (or_null p),
                   upd_path = Some pth\<rparr> s of
             Inl err \<Rightarrow> (Response 500 (Message ''Failed to update folder''), s)
           | Inr (row, s') \<Rightarrow> (Response 200 (FolderBody row), s')))"

text \<open>\<^verbatim>\<open>DELETE /api/folders/:id\<close>\<close>

definition delete_folders :: "env \<Rightarrow> string \<Rightarrow> nat \<Rightarrow> db \<Rightarrow> response \<times> db" where
  "delete_folders e userId folderId' s =
     (case getFilesByFolderId e folderId' s of
        Inl err \<Rightarrow> (Response 500 (Message ''Failed to delete folder''), s)
      | Inr fs \<Rightarrow>
          (case getFoldersByUserId e userId s of
             Inl err \<Rightarrow> (Response 500 (Message ''Failed to delete folder''), s)
           | Inr allFolders \<Rightarrow>
               (let subfolders = filter (\<lambda>f. parentId f = Some folderId') allFolders
                in if length fs > 0 \<or> length subfolders > 0
                   then (Response 400 (Message ''Cannot delete folder with files or subfolders''), s)
                   else (case deleteFolder e folderId' s of
                           Inl err \<Rightarrow> (Response 500 (Message ''Failed to delete folder''), s)
                         | Inr s' \<Rightarrow> (Response 200 Success, s')))))"

text \<open>
  \<^verbatim>\<open>POST /api/files/upload\<close>. A part of the multipart form is its text, or absent;
  the destructuring default replaces an absent part by the boolean true, and the
  options compare the value with the string \<^verbatim>\<open>'true'\<close> by \<^verbatim>\<open>===\<close>. \<^verbatim>\<open>folderId\<close> is
  given as the handler computes it (\<^verbatim>\<open>folderId ? parseInt(folderId) : null\<close>).
\<close>

record multerFile =
  mf_filename :: string
  mf_originalname :: string
  mf_size :: nat
  mf_mimetype :: string
  mf_path :: string

record uploadBody =
  body_folderId :: "nat option"
  body_processOcr :: "string option"
  body_generateSummary :: "string option"
  body_autoTag :: "string option"

definition default_true :: "string option \<Rightarrow> json" where
  "default_true v = (case v of None \<Rightarrow> JBool True | Some t \<Rightarrow> JStr t)"

definition strict_eq_str :: "json \<Rightarrow> string \<Rightarrow> bool" where
  "strict_eq_str v t = (v = JStr t)"

definition upload_options :: "uploadBody \<Rightarrow> processingOptions" where
  "upload_options b =
     \<lparr>processOcr = strict_eq_str (default_true (body_processOcr b)) ''true'',
      generateSummary = strict_eq_str (default_true (body_generateSummary b)) ''true'',
      autoTag = strict_eq_str (default_true (body_autoTag b)) ''true''\<rparr>"

text \<open>
  The loop over the uploaded files: the database, the records created so far and the
  pipeline calls started so far; it stops at the first insert that throws.
\<close>

fun upload_loop ::
  "env \<Rightarrow> string \<Rightarrow> uploadBody \<Rightarrow> multerFile list \<Rightarrow> db \<Rightarrow> fileRec list \<Rightarrow> task list
     \<Rightarrow> exn option \<times> db \<times> fileRec list \<times> task list" where
  "upload_loop e userId b [] s uploadedFiles started = (None, s, uploadedFiles, started)"
| "upload_loop e userId b (f # fs) s uploadedFiles started =
     (case createFile e
             \<lparr>insf_userId = userId, insf_folderId = body_folderId b,
              insf_name = mf_filename f, insf_originalName = mf_originalname f,
              insf_size = mf_size f, insf_mimeType = mf_mimetype f,
              insf_filePath = mf_path f, insf_processingStatus = ''processing''\<rparr> s of
        Inl err \<Rightarrow> (Some err, s, uploadedFiles, started)
      | Inr (newFile, s') \<Rightarrow>
          upload_loop e userId b fs s' (uploadedFiles @ [newFile])
            (started @ [ProcessFile newFile (upload_options b)]))"

definition post_files_upload ::
  "env \<Rightarrow> string \<Rightarrow> multerFile list \<Rightarrow> uploadBody \<Rightarrow> db \<Rightarrow> response \<times> db \<times> task list" where
  "post_files_upload e userId fs b s =
     (if length fs = 0 then (Response 400 (Message ''No files uploaded''), s, [])
      else (case upload_loop e userId b fs s [] [] of
              (Some err, s', uploadedFiles, started) \<Rightarrow>
                (Response 500 (Message ''Failed to upload files''), s', started)
            | (None, s', uploadedFiles, started) \<Rightarrow>
                (Response 200 (FilesBody uploadedFiles), s', started)))"

text \<open>\<^verbatim>\<open>POST /api/ai/command\<close>\<close>

definition post_ai_command ::
  "env \<Rightarrow> string \<Rightarrow> string \<Rightarrow> db \<Rightarrow> response \<times> db \<times> task list" where
  "post_ai_command e userId cmd s =
     (case createAiCommand e
             \<lparr>insc_userId = userId, insc_command = cmd, insc_status = ''processing''\<rparr> s of
        Inl err \<Rightarrow> (Response 500 (Message ''Failed to process AI command''), s, [])
      | Inr (aiCmd, s') \<Rightarrow>
          (Response 200 (CommandBody aiCmd), s',
           [ProcessCommand (cmd_id aiCmd) cmd userId]))"

text \<open>Running a task that a handler started.\<close>

fun run_task :: "env \<Rightarrow> task \<Rightarrow> db \<Rightarrow> outcome \<times> db \<times> event list" where
  "run_task e (ProcessFile f options) s = processFile e f options s"
| "run_task e (ProcessCommand commandId cmd userId) s = processCommand e commandId cmd userId s"

section \<open>Observations and example data\<close>

text \<open>The storage writes among the events of a background call.\<close>

definition is_write :: "event \<Rightarrow> bool" where
  "is_write ev =
     (case ev of
        StorageUpdateFile i u \<Rightarrow> True
      | StorageUpdateAiCommand i u \<Rightarrow> True
      | _ \<Rightarrow> False)"

text \<open>The three processed columns of a file row, as a later read finds them.\<close>

definition persisted ::
  "db \<Rightarrow> nat \<Rightarrow> (string option \<times> string option \<times> json option) option" where
  "persisted s i = map_option (\<lambda>r. (ocrText r, aiSummary r, tags r)) (file_row s i)"

text \<open>
  Example collaborators. \<open>example_parse\<close> agrees with \<^verbatim>\<open>JSON.parse\<close> on the two texts
  the examples pass to it; the example texts have no white space to trim.
\<close>

definition example_parse :: "string \<Rightarrow> json option" where
  "example_parse t =
     (if t = ''{}'' then Some (JObj []) else if t = ''null'' then Some JNull else None)"

definition example_chat :: "prompt \<Rightarrow> chat_result" where
  "example_chat p =
     (case p of
        SummarizePrompt n t \<Rightarrow> ChatReturns [Some ''A lease agreement.'']
      | TagsPrompt n t \<Rightarrow> ChatReturns [Some ''{}'']
      | CommandPrompt c \<Rightarrow> ChatReturns [Some ''{}''])"

definition example_env :: env where
  "example_env =
     \<lparr>now = 1000, db_throws = (\<lambda>op. False),
      recognize = (\<lambda>p. Some ''Lease Agreement between A and B''),
      chat_create = example_chat, String_trim = (\<lambda>t. t), JSON_parse = example_parse\<rparr>"

text \<open>The OCR worker and the chat endpoint both throw; the database works.\<close>

definition failing_env :: env where
  "failing_env =
     \<lparr>now = 1000, db_throws = (\<lambda>op. False), recognize = (\<lambda>p. None),
      chat_create = (\<lambda>p. ChatThrows), String_trim = (\<lambda>t. t), JSON_parse = example_parse\<rparr>"

text \<open>The database refuses the write of a processed file, and accepts the rest.\<close>

definition refuses_completed :: "db_op \<Rightarrow> bool" where
  "refuses_completed op =
     (case op of
        UpdateFile i u \<Rightarrow> upd_processingStatus u = Some ''completed''
      | _ \<Rightarrow> False)"

definition write_failing_env :: env where
  "write_failing_env =
     \<lparr>now = 1000, db_throws = refuses_completed,
      recognize = (\<lambda>p. Some ''Lease Agreement between A and B''),
      chat_create = example_chat, String_trim = (\<lambda>t. t), JSON_parse = example_parse\<rparr>"

text \<open>The database refuses every update of a file row, and accepts the rest.\<close>

definition refuses_file_updates :: "db_op \<Rightarrow> bool" where
  "refuses_file_updates op = (case op of UpdateFile i u \<Rightarrow> True | _ \<Rightarrow> False)"

definition file_write_failing_env :: env where
  "file_write_failing_env =
     \<lparr>now = 1000, db_throws = refuses_file_updates,
      recognize = (\<lambda>p. Some ''Lease Agreement between A and B''),
      chat_create = example_chat, String_trim = (\<lambda>t. t), JSON_parse = example_parse\<rparr>"

text \<open>The database refuses every update of a command row, and accepts the rest.\<close>

definition refuses_command_updates :: "db_op \<Rightarrow> bool" where
  "refuses_command_updates op = (case op of UpdateAiCommand i u \<Rightarrow> True | _ \<Rightarrow> False)"

definition command_write_failing_env :: env where
  "command_write_failing_env =
     \<lparr>now = 1000, db_throws = refuses_command_updates,
      recognize = (\<lambda>p. None), chat_create = example_chat,
      String_trim = (\<lambda>t. t), JSON_parse = example_parse\<rparr>"

definition lease_pdf :: fileRec where
  "lease_pdf =
     \<lparr>file_id = 1, file_userId = ''alice'', folderId = None, file_name = ''f3a9'',
      originalName = ''lease.pdf'', file_size = 2048, mimeType = ''application/pdf'',
      filePath = ''uploads/f3a9'', ocrText = None, aiSummary = None, tags = None,
      metadata = JNull, processingStatus = Some ''processing'',
      file_createdAt = Some 900, file_updatedAt = Some 900\<rparr>"

definition notes_txt :: fileRec where
  "notes_txt =
     \<lparr>file_id = 2, file_userId = ''alice'', folderId = None, file_name = ''b71c'',
      originalName = ''notes.txt'', file_size = 120, mimeType = ''text/plain'',
      filePath = ''uploads/b71c'', ocrText = None, aiSummary = None, tags = None,
      metadata = JNull, processingStatus = Some ''processing'',
      file_createdAt = Some 950, file_updatedAt = Some 950\<rparr>"

definition example_db :: db where
  "example_db =
     \<lparr>folders = [], files = [lease_pdf, notes_txt], aiCommands = [],
      next_folder_id = 1, next_file_id = 3, next_cmd_id = 1\<rparr>"

definition all_options :: processingOptions where
  "all_options = \<lparr>processOcr = True, generateSummary = True, autoTag = True\<rparr>"

text \<open>
  Two users: alice owns folder 1; bob owns folder 2, created under folder 1 (no handler
  checks who owns the parent it is given).
\<close>

definition contracts_folder :: folder where
  "contracts_folder =
     \<lparr>folder_id = 1, folder_userId = ''alice'', folder_name = ''Contracts'',
      parentId = None, path = ''Contracts'', folder_createdAt = Some 1000,
      folder_updatedAt = Some 1000\<rparr>"

definition leases_folder :: folder where
  "leases_folder =
     \<lparr>folder_id = 2, folder_userId = ''bob'', folder_name = ''Leases'',
      parentId = Some 1, path = ''Contracts/Leases'', folder_createdAt = Some 1000,
      folder_updatedAt = Some 1000\<rparr>"

definition two_user_db :: db where
  "two_user_db =
     \<lparr>folders = [contracts_folder, leases_folder], files = [], aiCommands = [],
      next_folder_id = 3, next_file_id = 1, next_cmd_id = 1\<rparr>"

text \<open>A root folder A and its child B, as the two creations leave them.\<close>

definition folder_A :: folder where
  "folder_A =
     \<lparr>folder_id = 1, folder_userId = ''alice'', folder_name = ''A'', parentId = None,
      path = ''A'', folder_createdAt = Some 1000, folder_updatedAt = Some 1000\<rparr>"

definition folder_B :: folder where
  "folder_B =
     \<lparr>folder_id = 2, folder_userId = ''alice'', folder_name = ''B'', parentId = Some 1,
      path = ''A/B'', folder_createdAt = Some 1000, folder_updatedAt = Some 1000\<rparr>"

definition db_A :: db where
  "db_A = init_db\<lparr>folders := [folder_A], next_folder_id := 2\<rparr>"

definition db_AB :: db where
  "db_AB = init_db\<lparr>folders := [folder_A, folder_B], next_folder_id := 3\<rparr>"

text \<open>An upload of one text file whose form carries none of the three option fields.\<close>

definition notes_upload :: multerFile where
  "notes_upload =
     \<lparr>mf_filename = ''b71c'', mf_originalname = ''notes.txt'', mf_size = 120,
      mf_mimetype = ''text/plain'', mf_path = ''uploads/b71c''\<rparr>"

definition bare_body :: uploadBody where
  "bare_body =
     \<lparr>body_folderId = None, body_processOcr = None, body_generateSummary = None,
      body_autoTag = None\<rparr>"

definition uploaded_notes :: fileRec where
  "uploaded_notes =
     \<lparr>file_id = 1, file_userId = ''alice'', folderId = None, file_name = ''b71c'',
      originalName = ''notes.txt'', file_size = 120, mimeType = ''text/plain'',
      filePath = ''uploads/b71c'', ocrText = None, aiSummary = None, tags = None,
      metadata = JNull, processingStatus = Some ''processing'',
      file_createdAt = Some 1000, file_updatedAt = Some 1000\<rparr>"

definition no_options :: processingOptions where
  "no_options = \<lparr>processOcr = False, generateSummary = False, autoTag = False\<rparr>"

text \<open>The command row that \<^verbatim>\<open>POST /api/ai/command\<close> creates first in an empty database.\<close>

definition first_command :: aiCommand where
  "first_command =
     \<lparr>cmd_id = 1, cmd_userId = ''alice'', command = ''find leases'', result = JNull,
      status = Some ''processing'', cmd_createdAt = Some 1000\<rparr>"

definition db_first_command :: db where
  "db_first_command = init_db\<lparr>aiCommands := [first_command], next_cmd_id := 2\<rparr>"

section \<open>Storage lemmas\<close>

lemma find_map_upd:
  assumes "\<And>x. key (g x) = key x"
  shows "find (\<lambda>x. key x = j) (map (\<lambda>x. if key x = i then g x else x) xs)
         = (if j = i then map_option g (find (\<lambda>x. key x = i) xs)
            else find (\<lambda>x. key x = j) xs)"
  using assms by (induction xs) auto

lemma file_id_apply_fileUpdate: "file_id (apply_fileUpdate t u f) = file_id f"
  by (simp add: apply_fileUpdate_def)

lemma updateFile_cases:
  "updateFile e i u s =
     (if db_throws e (UpdateFile i u) then Inl (Error ''db'')
      else Inr (map_option (apply_fileUpdate (now e) u) (file_row s i),
                s\<lparr>files := map (\<lambda>f. if file_id f = i then apply_fileUpdate (now e) u f else f)
                                 (files s)\<rparr>))"
  by (simp add: updateFile_def file_row_def Let_def
        find_map_upd [where key = file_id and g = "apply_fileUpdate (now e) u", OF file_id_apply_fileUpdate])

lemma file_row_after_update:
  "file_row (s\<lparr>files := map (\<lambda>f. if file_id f = i then apply_fileUpdate t u f else f) (files s)\<rparr>) j
     = (if j = i then map_option (apply_fileUpdate t u) (file_row s i) else file_row s j)"
  by (simp add: file_row_def
        find_map_upd [where key = file_id and g = "apply_fileUpdate t u", OF file_id_apply_fileUpdate])

lemma processFile_cases:
  assumes "pipeline_steps e f options = (u, tr)"
  shows "processFile e f options s =
     (if \<not> db_throws e (UpdateFile (file_id f) u)
      then (Resolved,
            s\<lparr>files := map (\<lambda>r. if file_id r = file_id f then apply_fileUpdate (now e) u r else r) (files s)\<rparr>,
            tr @ [StorageUpdateFile (file_id f) u])
      else if \<not> db_throws e (UpdateFile (file_id f) failed_file_update)
      then (Resolved,
            s\<lparr>files := map (\<lambda>r. if file_id r = file_id f
                                  then apply_fileUpdate (now e) failed_file_update r else r) (files s)\<rparr>,
            tr @ [StorageUpdateFile (file_id f) u, StorageUpdateFile (file_id f) failed_file_update])
      else (Rejected (Error ''db''), s,
            tr @ [StorageUpdateFile (file_id f) u, StorageUpdateFile (file_id f) failed_file_update]))"
  using assms by (simp add: processFile_def processFile_try_def updateFile_cases)

lemma processFile_try_cases:
  assumes "pipeline_steps e f options = (u, tr)"
  shows "fst (processFile_try e f options s) =
     (if db_throws e (UpdateFile (file_id f) u) then Inl (Error ''db'')
      else Inr (s\<lparr>files := map (\<lambda>r. if file_id r = file_id f then apply_fileUpdate (now e) u r else r) (files s)\<rparr>))"
  using assms by (simp add: processFile_try_def updateFile_cases)

lemma pipeline_steps_status:
  "pipeline_steps e f options = (u, tr) \<Longrightarrow> upd_processingStatus u = Some ''completed''"
  by (auto simp: pipeline_steps_def processed_update_def Let_def split: prod.splits)

section \<open>The file pipeline\<close>

text \<open>
  C1, as the code has it. Let the file's row exist. If the \<^verbatim>\<open>try\<close> block of
  \<^verbatim>\<open>processFile\<close> runs to its end (its write does not throw), the call resolves and the
  row's status is completed. If an exception escapes the block, the last call made is the
  write of status failed: when that write is accepted the call resolves and the row's
  status is failed; when it throws as well the call rejects and the database is as it
  was. So whenever \<^verbatim>\<open>processFile\<close> resolves, the status is completed or failed.
\<close>

theorem processFile_final_status:
  assumes "file_row s (file_id f) = Some r"
    and "processFile e f options s = (out, s1, tr)"
  shows "(\<forall>s'. fst (processFile_try e f options s) = Inr s' \<longrightarrow>
            out = Resolved \<and> s1 = s' \<and>
            map_option processingStatus (file_row s1 (file_id f)) = Some (Some ''completed''))
       \<and> (\<forall>err. fst (processFile_try e f options s) = Inl err \<longrightarrow>
            last tr = StorageUpdateFile (file_id f) failed_file_update \<and>
            (out = Resolved \<longrightarrow>
               map_option processingStatus (file_row s1 (file_id f)) = Some (Some ''failed'')))
       \<and> (\<forall>err. fst (processFile_try e f options s) = Inl err \<and>
                \<not> db_throws e (UpdateFile (file_id f) failed_file_update) \<longrightarrow>
            out = Resolved \<and>
            map_option processingStatus (file_row s1 (file_id f)) = Some (Some ''failed''))
       \<and> (\<forall>err. fst (processFile_try e f options s) = Inl err \<and>
                db_throws e (UpdateFile (file_id f) failed_file_update) \<longrightarrow>
            out = Rejected (Error ''db'') \<and> s1 = s)
       \<and> (out = Resolved \<longrightarrow>
            map_option processingStatus (file_row s1 (file_id f)) = Some (Some ''completed'') \<or>
            map_option processingStatus (file_row s1 (file_id f)) = Some (Some ''failed''))"
proof -
  obtain u tr0 where st: "pipeline_steps e f options = (u, tr0)"
    by (cases "pipeline_steps e f options")
  have u: "upd_processingStatus u = Some ''completed''"
    using st by (rule pipeline_steps_status)
  show ?thesis
    using assms u
    by (auto simp: processFile_cases [OF st] processFile_try_cases [OF st]
          file_row_after_update apply_fileUpdate_def failed_file_update_def
          split: if_splits)
qed

text \<open>The calls of the three steps for \<^verbatim>\<open>lease.pdf\<close> when the OCR worker and the chat
  endpoint answer as in the examples.\<close>

lemma steps_lease:
  assumes "recognize e = (\<lambda>p. Some ''Lease Agreement between A and B'')"
    and "chat_create e = example_chat" and "String_trim e = (\<lambda>t. t)"
    and "JSON_parse e = example_parse"
  shows "pipeline_steps e lease_pdf all_options =
     (processed_update ''Lease Agreement between A and B'' ''A lease agreement.'' (JArr []),
      [ExtractText ''uploads/f3a9'',
       SummarizeDocument ''Lease Agreement between A and B'' ''lease.pdf'',
       GenerateTags ''Lease Agreement between A and B'' ''lease.pdf''])"
  using assms
  by (simp add: pipeline_steps_def ocr_step_def summary_step_def tags_step_def
        lease_pdf_def all_options_def isOCRSupported_def
        supportedTypes_def extractText_def summarizeDocument_def summarizeDocument_try_def
        generateTags_def generateTags_try_def first_content_def parse_content_def
        example_chat_def example_parse_def Let_def)

lemma steps_lease_example:
  "pipeline_steps example_env lease_pdf all_options =
     (processed_update ''Lease Agreement between A and B'' ''A lease agreement.'' (JArr []),
      [ExtractText ''uploads/f3a9'',
       SummarizeDocument ''Lease Agreement between A and B'' ''lease.pdf'',
       GenerateTags ''Lease Agreement between A and B'' ''lease.pdf''])"
  by (rule steps_lease) (simp_all add: example_env_def)

lemma steps_lease_write_failing:
  "pipeline_steps write_failing_env lease_pdf all_options =
     (processed_update ''Lease Agreement between A and B'' ''A lease agreement.'' (JArr []),
      [ExtractText ''uploads/f3a9'',
       SummarizeDocument ''Lease Agreement between A and B'' ''lease.pdf'',
       GenerateTags ''Lease Agreement between A and B'' ''lease.pdf''])"
  by (rule steps_lease) (simp_all add: write_failing_env_def)

lemma steps_lease_file_write_failing:
  "pipeline_steps file_write_failing_env lease_pdf all_options =
     (processed_update ''Lease Agreement between A and B'' ''A lease agreement.'' (JArr []),
      [ExtractText ''uploads/f3a9'',
       SummarizeDocument ''Lease Agreement between A and B'' ''lease.pdf'',
       GenerateTags ''Lease Agreement between A and B'' ''lease.pdf''])"
  by (rule steps_lease) (simp_all add: file_write_failing_env_def)

text \<open>
  C1 as stated fails: the database refuses both writes, so an exception escapes the
  \<^verbatim>\<open>try\<close> block and status failed is not persisted; \<^verbatim>\<open>processFile\<close> rejects and the row
  is left with status processing.
\<close>

theorem processFile_both_writes_refused_counterexample:
  "file_row example_db (file_id lease_pdf) = Some lease_pdf \<and>
   fst (processFile_try file_write_failing_env lease_pdf all_options example_db) =
     Inl (Error ''db'') \<and>
   processFile file_write_failing_env lease_pdf all_options example_db =
     (Rejected (Error ''db''), example_db,
      [ExtractText ''uploads/f3a9'',
       SummarizeDocument ''Lease Agreement between A and B'' ''lease.pdf'',
       GenerateTags ''Lease Agreement between A and B'' ''lease.pdf'',
       StorageUpdateFile (file_id lease_pdf)
         (processed_update ''Lease Agreement between A and B'' ''A lease agreement.'' (JArr [])),
       StorageUpdateFile (file_id lease_pdf) failed_file_update]) \<and>
   map_option processingStatus (file_row example_db (file_id lease_pdf)) =
     Some (Some ''processing'')"
proof -
  have a: "file_row example_db (file_id lease_pdf) = Some lease_pdf"
    by (simp add: file_row_def example_db_def lease_pdf_def)
  have b: "fst (processFile_try file_write_failing_env lease_pdf all_options example_db) =
     Inl (Error ''db'')"
    by (subst processFile_try_cases [OF steps_lease_file_write_failing])
       (simp add: file_write_failing_env_def refuses_file_updates_def)
  have c: "processFile file_write_failing_env lease_pdf all_options example_db =
     (Rejected (Error ''db''), example_db,
      [ExtractText ''uploads/f3a9'',
       SummarizeDocument ''Lease Agreement between A and B'' ''lease.pdf'',
       GenerateTags ''Lease Agreement between A and B'' ''lease.pdf'',
       StorageUpdateFile (file_id lease_pdf)
         (processed_update ''Lease Agreement between A and B'' ''A lease agreement.'' (JArr [])),
       StorageUpdateFile (file_id lease_pdf) failed_file_update])"
    by (subst processFile_cases [OF steps_lease_file_write_failing])
       (simp add: file_write_failing_env_def refuses_file_updates_def)
  have d: "map_option processingStatus (file_row example_db (file_id lease_pdf)) =
     Some (Some ''processing'')"
    unfolding a by (simp add: lease_pdf_def)
  show ?thesis
    using a b c d by blast
qed

text \<open>
  Two instances: every write is accepted, and the row ends completed; the write of the
  processed file throws and the write of failed is accepted, and the row ends failed.
\<close>

theorem processFile_final_status_witness:
  "file_row example_db (file_id lease_pdf) = Some lease_pdf \<and>
   fst (processFile example_env lease_pdf all_options example_db) = Resolved \<and>
   map_option processingStatus
     (file_row (fst (snd (processFile example_env lease_pdf all_options example_db)))
        (file_id lease_pdf)) = Some (Some ''completed'') \<and>
   fst (processFile write_failing_env lease_pdf all_options example_db) = Resolved \<and>
   map_option processingStatus
     (file_row (fst (snd (processFile write_failing_env lease_pdf all_options example_db)))
        (file_id lease_pdf)) = Some (Some ''failed'')"
proof -
  let ?ok = "processFile example_env lease_pdf all_options example_db"
  let ?wf = "processFile write_failing_env lease_pdf all_options example_db"
  have row: "file_row example_db (file_id lease_pdf) = Some lease_pdf"
    by (simp add: file_row_def example_db_def lease_pdf_def)
  have run_ok: "?ok = (fst ?ok, fst (snd ?ok), snd (snd ?ok))"
    by simp
  have run_wf: "?wf = (fst ?wf, fst (snd ?wf), snd (snd ?wf))"
    by simp
  have ended: "\<exists>s'. fst (processFile_try example_env lease_pdf all_options example_db) = Inr s'"
    by (subst processFile_try_cases [OF steps_lease_example])
       (simp add: example_env_def)
  have esc: "fst (processFile_try write_failing_env lease_pdf all_options example_db)
               = Inl (Error ''db'')"
    by (subst processFile_try_cases [OF steps_lease_write_failing])
       (simp add: write_failing_env_def refuses_completed_def processed_update_def)
  have acc: "\<not> db_throws write_failing_env (UpdateFile (file_id lease_pdf) failed_file_update)"
    by (simp add: write_failing_env_def refuses_completed_def failed_file_update_def)
  show ?thesis
    using processFile_final_status [OF row run_ok] processFile_final_status [OF row run_wf]
      ended esc acc row
    by blast
qed

text \<open>Neither language-model wrapper throws: each \<^verbatim>\<open>catch\<close> returns a value.\<close>

lemma summarizeDocument_total: "\<exists>t. summarizeDocument e txt n = Inr t"
  by (simp add: summarizeDocument_def split: sum.splits)

lemma generateTags_total: "\<exists>v. generateTags e txt n = Inr v"
  by (simp add: generateTags_def split: sum.splits)

lemma pipeline_steps_all_fail:
  assumes "processOcr options" "generateSummary options" "autoTag options"
    and "originalName f \<noteq> []"
    and "extractText e (filePath f) = Inl err0"
    and "summarizeDocument_try e (originalName f) (originalName f) = Inl err1"
    and "generateTags_try e (originalName f) (originalName f) = Inl err2"
  shows "fst (pipeline_steps e f options) = processed_update [] ''Summary generation failed'' (JArr [])"
  using assms
  by (simp add: pipeline_steps_def ocr_step_def summary_step_def tags_step_def
        summarizeDocument_def generateTags_def Let_def)

text \<open>
  C2, as the code has it. Let the file's row exist, all three options be enabled, the
  original name be non-empty (so that the two language-model steps run), and let the
  extraction, the summarization and the tagging all fail. When the write of the result
  is accepted, \<^verbatim>\<open>processFile\<close> resolves and the row has status completed, the empty text,
  the empty tag sequence, and as summary the text that \<^verbatim>\<open>summarizeDocument\<close> returns from
  its own \<^verbatim>\<open>catch\<close>.
\<close>

theorem all_steps_fail_completed:
  assumes "file_row s (file_id f) = Some r"
    and "processOcr options" "generateSummary options" "autoTag options"
    and "originalName f \<noteq> []"
    and "extractText e (filePath f) = Inl err0"
    and "summarizeDocument_try e (originalName f) (originalName f) = Inl err1"
    and "generateTags_try e (originalName f) (originalName f) = Inl err2"
    and "\<not> db_throws e (UpdateFile (file_id f)
             (processed_update [] ''Summary generation failed'' (JArr [])))"
  shows "fst (processFile e f options s) = Resolved \<and>
         file_row (fst (snd (processFile e f options s))) (file_id f) =
           Some (r\<lparr>ocrText := Some [], aiSummary := Some ''Summary generation failed'',
                   tags := Some (JArr []), processingStatus := Some ''completed'',
                   file_updatedAt := Some (now e)\<rparr>)"
proof -
  obtain u tr0 where st: "pipeline_steps e f options = (u, tr0)"
    by (cases "pipeline_steps e f options")
  have u: "u = processed_update [] ''Summary generation failed'' (JArr [])"
    using pipeline_steps_all_fail [OF assms(2-8)] st by simp
  show ?thesis
    using assms(1,9)
    by (simp add: processFile_cases [OF st] u file_row_after_update apply_fileUpdate_def
          processed_update_def)
qed

text \<open>
  C2 as stated fails: with the OCR worker and the chat endpoint throwing, the summary
  that is persisted for \<^verbatim>\<open>lease.pdf\<close> is not empty.
\<close>

lemma steps_failing_lease:
  "pipeline_steps failing_env lease_pdf all_options =
     (processed_update [] ''Summary generation failed'' (JArr []),
      [ExtractText ''uploads/f3a9'', SummarizeDocument ''lease.pdf'' ''lease.pdf'',
       GenerateTags ''lease.pdf'' ''lease.pdf''])"
  by (simp add: pipeline_steps_def ocr_step_def summary_step_def tags_step_def
        failing_env_def lease_pdf_def all_options_def isOCRSupported_def
        supportedTypes_def extractText_def summarizeDocument_def summarizeDocument_try_def
        generateTags_def generateTags_try_def first_content_def Let_def)

theorem all_steps_fail_summary_counterexample:
  "extractText failing_env (filePath lease_pdf) = Inl (Error ''Failed to extract text from document'') \<and>
   chat_create failing_env (SummarizePrompt ''lease.pdf'' ''lease.pdf'') = ChatThrows \<and>
   chat_create failing_env (TagsPrompt ''lease.pdf'' ''lease.pdf'') = ChatThrows \<and>
   fst (processFile failing_env lease_pdf all_options example_db) = Resolved \<and>
   map_option aiSummary
     (file_row (fst (snd (processFile failing_env lease_pdf all_options example_db))) 1)
     = Some (Some ''Summary generation failed'') \<and>
   map_option aiSummary
     (file_row (fst (snd (processFile failing_env lease_pdf all_options example_db))) 1)
     \<noteq> Some (Some [])"
proof -
  have "processFile failing_env lease_pdf all_options example_db =
          (Resolved,
           example_db\<lparr>files := map (\<lambda>r. if file_id r = file_id lease_pdf
               then apply_fileUpdate (now failing_env)
                      (processed_update [] ''Summary generation failed'' (JArr [])) r
               else r) (files example_db)\<rparr>,
           [ExtractText ''uploads/f3a9'', SummarizeDocument ''lease.pdf'' ''lease.pdf'',
            GenerateTags ''lease.pdf'' ''lease.pdf''] @
           [StorageUpdateFile (file_id lease_pdf)
              (processed_update [] ''Summary generation failed'' (JArr []))])"
    by (subst processFile_cases [OF steps_failing_lease]) (simp add: failing_env_def)
  then show ?thesis
    by (simp add: file_row_def example_db_def lease_pdf_def notes_txt_def
          apply_fileUpdate_def processed_update_def extractText_def failing_env_def)
qed

theorem all_steps_fail_completed_witness:
  "file_row example_db (file_id lease_pdf) = Some lease_pdf \<and>
   fst (processFile failing_env lease_pdf all_options example_db) = Resolved \<and>
   file_row (fst (snd (processFile failing_env lease_pdf all_options example_db)))
       (file_id lease_pdf) =
     Some (lease_pdf\<lparr>ocrText := Some [], aiSummary := Some ''Summary generation failed'',
             tags := Some (JArr []), processingStatus := Some ''completed'',
             file_updatedAt := Some (now failing_env)\<rparr>)"
proof -
  have row: "file_row example_db (file_id lease_pdf) = Some lease_pdf"
    by (simp add: file_row_def example_db_def lease_pdf_def)
  have o: "processOcr all_options" "generateSummary all_options" "autoTag all_options"
    by (simp_all add: all_options_def)
  have n: "originalName lease_pdf \<noteq> []"
    by (simp add: lease_pdf_def)
  have x: "extractText failing_env (filePath lease_pdf) =
             Inl (Error ''Failed to extract text from document'')"
    by (simp add: extractText_def failing_env_def)
  have su: "summarizeDocument_try failing_env (originalName lease_pdf) (originalName lease_pdf)
              = Inl (Error ''chat'')"
    by (simp add: summarizeDocument_try_def first_content_def failing_env_def)
  have tg: "generateTags_try failing_env (originalName lease_pdf) (originalName lease_pdf)
              = Inl (Error ''chat'')"
    by (simp add: generateTags_try_def first_content_def failing_env_def)
  have w: "\<not> db_throws failing_env (UpdateFile (file_id lease_pdf)
             (processed_update [] ''Summary generation failed'' (JArr [])))"
    by (simp add: failing_env_def)
  show ?thesis
    using all_steps_fail_completed [OF row o n x su tg w] row by simp
qed

lemma pipeline_steps_unsupported:
  assumes "\<not> isOCRSupported (mimeType f)"
  shows "snd (pipeline_steps e f options) =
           (if generateSummary options \<and> originalName f \<noteq> []
            then [SummarizeDocument (originalName f) (originalName f)] else []) @
           (if autoTag options \<and> originalName f \<noteq> []
            then [GenerateTags (originalName f) (originalName f)] else [])"
  using assms summarizeDocument_total [of e "originalName f" "originalName f"]
    generateTags_total [of e "originalName f" "originalName f"]
  by (auto simp: pipeline_steps_def ocr_step_def summary_step_def tags_step_def Let_def)

lemma processFile_trace:
  "\<exists>ws. snd (snd (processFile e f options s)) = snd (pipeline_steps e f options) @ ws \<and>
        ws \<noteq> [] \<and> (\<forall>w \<in> set ws. is_write w)"
proof -
  obtain u tr0 where st: "pipeline_steps e f options = (u, tr0)"
    by (cases "pipeline_steps e f options")
  show ?thesis
    by (simp add: processFile_cases [OF st] st is_write_def)
qed

definition textForAI_of :: "env \<Rightarrow> fileRec \<Rightarrow> processingOptions \<Rightarrow> string" where
  "textForAI_of e f options =
     (if fst (ocr_step e f options) \<noteq> [] then fst (ocr_step e f options) else originalName f)"

lemma pipeline_steps_calls:
  "snd (pipeline_steps e f options) =
     snd (ocr_step e f options) @ snd (summary_step e f options (textForAI_of e f options)) @
     snd (tags_step e f options (textForAI_of e f options))"
  by (simp add: pipeline_steps_def Let_def case_prod_beta textForAI_of_def)

lemma ocr_step_no_write: "\<forall>ev \<in> set (snd (ocr_step e f options)). \<not> is_write ev"
  by (simp add: ocr_step_def is_write_def split: sum.splits)

lemma summary_step_no_write: "\<forall>ev \<in> set (snd (summary_step e f options txt)). \<not> is_write ev"
  by (simp add: summary_step_def is_write_def split: sum.splits)

lemma tags_step_no_write: "\<forall>ev \<in> set (snd (tags_step e f options txt)). \<not> is_write ev"
  by (simp add: tags_step_def is_write_def split: sum.splits)

lemma pipeline_steps_no_write: "\<forall>ev \<in> set (snd (pipeline_steps e f options)). \<not> is_write ev"
  using ocr_step_no_write [of e f options]
    summary_step_no_write [of e f options "textForAI_of e f options"]
    tags_step_no_write [of e f options "textForAI_of e f options"]
  by (auto simp: pipeline_steps_calls)

lemma filter_calls:
  "filter (\<lambda>ev. \<not> is_write ev) (snd (snd (processFile e f options s))) =
     snd (pipeline_steps e f options)"
proof -
  obtain ws where ws: "snd (snd (processFile e f options s)) = snd (pipeline_steps e f options) @ ws"
    "\<forall>w \<in> set ws. is_write w"
    using processFile_trace by blast
  have "filter (\<lambda>ev. \<not> is_write ev) ws = []"
    using ws(2) by (simp add: filter_empty_conv)
  moreover have "filter (\<lambda>ev. \<not> is_write ev) (snd (pipeline_steps e f options)) = snd (pipeline_steps e f options)"
    using pipeline_steps_no_write by (simp add: filter_id_conv)
  ultimately show ?thesis using ws(1) by simp
qed

text \<open>
  C3. For a file whose media type is outside the supported set, the calls that
  \<^verbatim>\<open>processFile\<close> makes besides its storage writes are: no text extraction; the
  summarization of the original name, when it is enabled and the name is non-empty; the
  tagging of the original name, when it is enabled and the name is non-empty.
\<close>

theorem unsupported_type_uses_name:
  assumes "mimeType f \<notin> {''image/jpeg'', ''image/png'', ''image/gif'', ''image/bmp'',
                            ''image/tiff'', ''application/pdf''}"
  shows "filter (\<lambda>ev. \<not> is_write ev) (snd (snd (processFile e f options s))) =
           (if generateSummary options \<and> originalName f \<noteq> []
            then [SummarizeDocument (originalName f) (originalName f)] else []) @
           (if autoTag options \<and> originalName f \<noteq> []
            then [GenerateTags (originalName f) (originalName f)] else [])"
proof -
  have "\<not> isOCRSupported (mimeType f)"
    using assms by (simp add: isOCRSupported_def supportedTypes_def)
  then show ?thesis
    by (simp add: filter_calls pipeline_steps_unsupported)
qed

lemma steps_example_notes:
  "pipeline_steps example_env notes_txt all_options =
     (processed_update [] ''A lease agreement.'' (JArr []),
      [SummarizeDocument ''notes.txt'' ''notes.txt'', GenerateTags ''notes.txt'' ''notes.txt''])"
  by (simp add: pipeline_steps_def ocr_step_def summary_step_def tags_step_def
        example_env_def notes_txt_def all_options_def isOCRSupported_def
        supportedTypes_def summarizeDocument_def summarizeDocument_try_def
        generateTags_def generateTags_try_def first_content_def parse_content_def
        example_chat_def example_parse_def Let_def)

theorem unsupported_type_uses_name_witness:
  "mimeType notes_txt \<notin> {''image/jpeg'', ''image/png'', ''image/gif'', ''image/bmp'',
                             ''image/tiff'', ''application/pdf''} \<and>
   filter (\<lambda>ev. \<not> is_write ev)
     (snd (snd (processFile example_env notes_txt all_options example_db))) =
     [SummarizeDocument ''notes.txt'' ''notes.txt'', GenerateTags ''notes.txt'' ''notes.txt'']"
proof -
  have m: "mimeType notes_txt \<notin> {''image/jpeg'', ''image/png'', ''image/gif'', ''image/bmp'',
                             ''image/tiff'', ''application/pdf''}"
    by (simp add: notes_txt_def)
  show ?thesis
    using unsupported_type_uses_name [OF m, where options = all_options and e = example_env and s = example_db] m
    by (simp add: all_options_def notes_txt_def)
qed


lemma extractText_now: "extractText (e\<lparr>now := t\<rparr>) p = extractText e p"
  by (simp add: extractText_def split: option.splits)

lemma summarizeDocument_now: "summarizeDocument (e\<lparr>now := t\<rparr>) txt n = summarizeDocument e txt n"
  by (simp add: summarizeDocument_def summarizeDocument_try_def)

lemma generateTags_now: "generateTags (e\<lparr>now := t\<rparr>) txt n = generateTags e txt n"
proof -
  have "parse_content (e\<lparr>now := t\<rparr>) = parse_content e"
    by (rule ext) (simp add: parse_content_def)
  then show ?thesis
    by (simp add: generateTags_def generateTags_try_def cong: sum.case_cong)
qed

lemma pipeline_steps_now: "pipeline_steps (e\<lparr>now := t\<rparr>) f options = pipeline_steps e f options"
proof -
  have "ocr_step (e\<lparr>now := t\<rparr>) f options = ocr_step e f options"
    by (simp add: ocr_step_def extractText_now)
  moreover have "summary_step (e\<lparr>now := t\<rparr>) f options = summary_step e f options"
    by (intro ext) (simp add: summary_step_def summarizeDocument_now)
  moreover have "tags_step (e\<lparr>now := t\<rparr>) f options = tags_step e f options"
    by (intro ext) (simp add: tags_step_def generateTags_now)
  ultimately show ?thesis
    by (simp add: pipeline_steps_def)
qed

lemma pipeline_steps_same_inputs:
  assumes "mimeType f' = mimeType f" "filePath f' = filePath f" "originalName f' = originalName f"
  shows "pipeline_steps e f' options = pipeline_steps e f options"
proof -
  have "ocr_step e f' options = ocr_step e f options"
    using assms by (simp add: ocr_step_def cong: sum.case_cong)
  moreover have "summary_step e f' options = summary_step e f options"
    using assms by (intro ext) (simp add: summary_step_def cong: sum.case_cong)
  moreover have "tags_step e f' options = tags_step e f options"
    using assms by (intro ext) (simp add: tags_step_def cong: sum.case_cong)
  ultimately show ?thesis
    using assms by (simp add: pipeline_steps_def case_prod_beta Let_def)
qed

lemma persisted_after_update:
  "persisted (s\<lparr>files := map (\<lambda>r. if file_id r = i then apply_fileUpdate t u r else r) (files s)\<rparr>) i
     = map_option (\<lambda>r. (case upd_ocrText u of None \<Rightarrow> ocrText r | Some v \<Rightarrow> Some v,
                         case upd_aiSummary u of None \<Rightarrow> aiSummary r | Some v \<Rightarrow> Some v,
                         case upd_tags u of None \<Rightarrow> tags r | Some v \<Rightarrow> Some v)) (file_row s i)"
  by (simp add: persisted_def file_row_after_update option.map_comp comp_def apply_fileUpdate_def)

lemma persisted_update_twice:
  "persisted (s\<lparr>files := map (\<lambda>r. if file_id r = i then apply_fileUpdate t2 u r else r)
       (map (\<lambda>r. if file_id r = i then apply_fileUpdate t1 u r else r) (files s))\<rparr>) i
   = persisted (s\<lparr>files := map (\<lambda>r. if file_id r = i then apply_fileUpdate t1 u r else r) (files s)\<rparr>) i"
proof -
  let ?s1 = "s\<lparr>files := map (\<lambda>r. if file_id r = i then apply_fileUpdate t1 u r else r) (files s)\<rparr>"
  have "persisted (?s1\<lparr>files := map (\<lambda>r. if file_id r = i then apply_fileUpdate t2 u r else r) (files ?s1)\<rparr>) i
        = persisted ?s1 i"
    unfolding persisted_after_update [where s = ?s1]
    by (cases "file_row s i")
       (simp_all add: persisted_def file_row_after_update apply_fileUpdate_def split: option.splits)
  then show ?thesis by simp
qed

text \<open>
  C9. Run \<^verbatim>\<open>processFile\<close>, then run it again at any later time on the database the first
  run left, with the same options and collaborators and a file record that agrees with
  the first on the fields the pipeline reads (the same record, or its row read back).
  Both runs end the same way, make the same calls and write the same objects, and the
  row holds the same text, summary and tags after the second run as after the first.
\<close>

theorem processFile_rerun_same_output:
  assumes "file_id f' = file_id f" "mimeType f' = mimeType f" "filePath f' = filePath f"
    "originalName f' = originalName f"
    and r1: "processFile e f options s = (out1, s1, tr1)"
    and r2: "processFile (e\<lparr>now := t\<rparr>) f' options s1 = (out2, s2, tr2)"
  shows "out2 = out1 \<and> tr2 = tr1 \<and> persisted s2 (file_id f) = persisted s1 (file_id f)"
proof -
  obtain u tr0 where st: "pipeline_steps e f options = (u, tr0)"
    by (cases "pipeline_steps e f options")
  have st': "pipeline_steps (e\<lparr>now := t\<rparr>) f' options = (u, tr0)"
    using st pipeline_steps_same_inputs [OF assms(2-4), of "e\<lparr>now := t\<rparr>" options]
    by (simp add: pipeline_steps_now)
  note c1 = processFile_cases [OF st, of s]
  note c2 = processFile_cases [OF st', of s1]
  consider (ok) "\<not> db_throws e (UpdateFile (file_id f) u)"
    | (failed) "db_throws e (UpdateFile (file_id f) u)"
        "\<not> db_throws e (UpdateFile (file_id f) failed_file_update)"
    | (rejected) "db_throws e (UpdateFile (file_id f) u)"
        "db_throws e (UpdateFile (file_id f) failed_file_update)"
    by blast
  then show ?thesis
  proof cases
    case ok
    have "s1 = s\<lparr>files := map (\<lambda>r. if file_id r = file_id f then apply_fileUpdate (now e) u r else r) (files s)\<rparr>"
      and "out1 = Resolved" and "tr1 = tr0 @ [StorageUpdateFile (file_id f) u]"
      using r1 ok by (auto simp: c1)
    moreover have "s2 = s1\<lparr>files := map (\<lambda>r. if file_id r = file_id f then apply_fileUpdate t u r else r) (files s1)\<rparr>"
      and "out2 = Resolved" and "tr2 = tr0 @ [StorageUpdateFile (file_id f) u]"
      using r2 ok assms(1) by (auto simp: c2)
    ultimately show ?thesis
      using persisted_update_twice [where s = s and i = "file_id f" and ?t2.0 = t and u = u and ?t1.0 = "now e"] by simp
  next
    case failed
    have "s1 = s\<lparr>files := map (\<lambda>r. if file_id r = file_id f then apply_fileUpdate (now e) failed_file_update r else r) (files s)\<rparr>"
      and "out1 = Resolved"
      and "tr1 = tr0 @ [StorageUpdateFile (file_id f) u, StorageUpdateFile (file_id f) failed_file_update]"
      using r1 failed by (auto simp: c1)
    moreover have "s2 = s1\<lparr>files := map (\<lambda>r. if file_id r = file_id f then apply_fileUpdate t failed_file_update r else r) (files s1)\<rparr>"
      and "out2 = Resolved"
      and "tr2 = tr0 @ [StorageUpdateFile (file_id f) u, StorageUpdateFile (file_id f) failed_file_update]"
      using r2 failed assms(1) by (auto simp: c2)
    ultimately show ?thesis
      using persisted_update_twice [where s = s and i = "file_id f" and ?t2.0 = t and u = failed_file_update and ?t1.0 = "now e"] by simp
  next
    case rejected
    have "s1 = s" and "out1 = Rejected (Error ''db'')"
      and "tr1 = tr0 @ [StorageUpdateFile (file_id f) u, StorageUpdateFile (file_id f) failed_file_update]"
      using r1 rejected by (auto simp: c1)
    moreover have "s2 = s1" and "out2 = Rejected (Error ''db'')"
      and "tr2 = tr0 @ [StorageUpdateFile (file_id f) u, StorageUpdateFile (file_id f) failed_file_update]"
      using r2 rejected assms(1) by (auto simp: c2)
    ultimately show ?thesis by simp
  qed
qed



theorem processFile_rerun_same_output_witness:
  "file_id (lease_pdf\<lparr>ocrText := Some ''Lease Agreement between A and B'',
                    aiSummary := Some ''A lease agreement.'', tags := Some (JArr []),
                    processingStatus := Some ''completed'', file_updatedAt := Some 1000\<rparr>)
     = file_id lease_pdf \<and>
   persisted
     (fst (snd (processFile (example_env\<lparr>now := 2000\<rparr>)
        (lease_pdf\<lparr>ocrText := Some ''Lease Agreement between A and B'',
                    aiSummary := Some ''A lease agreement.'', tags := Some (JArr []),
                    processingStatus := Some ''completed'', file_updatedAt := Some 1000\<rparr>)
        all_options
        (fst (snd (processFile example_env lease_pdf all_options example_db))))))
     (file_id lease_pdf)
   = persisted (fst (snd (processFile example_env lease_pdf all_options example_db)))
       (file_id lease_pdf)"
proof -
  let ?f' = "lease_pdf\<lparr>ocrText := Some ''Lease Agreement between A and B'',
                    aiSummary := Some ''A lease agreement.'', tags := Some (JArr []),
                    processingStatus := Some ''completed'', file_updatedAt := Some 1000\<rparr>"
  let ?r1 = "processFile example_env lease_pdf all_options example_db"
  let ?r2 = "processFile (example_env\<lparr>now := 2000\<rparr>) ?f' all_options (fst (snd ?r1))"
  have i: "file_id ?f' = file_id lease_pdf" "mimeType ?f' = mimeType lease_pdf"
    "filePath ?f' = filePath lease_pdf" "originalName ?f' = originalName lease_pdf"
    by simp_all
  have r1: "?r1 = (fst ?r1, fst (snd ?r1), snd (snd ?r1))" by simp
  have r2: "?r2 = (fst ?r2, fst (snd ?r2), snd (snd ?r2))" by simp
  show ?thesis
    using processFile_rerun_same_output [OF i r1 r2] by simp
qed

section \<open>Folders\<close>

lemma folder_id_apply_folderUpdate: "folder_id (apply_folderUpdate t u f) = folder_id f"
  by (simp add: apply_folderUpdate_def)

lemma updateFolder_cases:
  "updateFolder e i u s =
     (if db_throws e (UpdateFolder i u) then Inl (Error ''db'')
      else Inr (map_option (apply_folderUpdate (now e) u) (folder_row s i),
                s\<lparr>folders := map (\<lambda>f. if folder_id f = i then apply_folderUpdate (now e) u f else f)
                                   (folders s)\<rparr>))"
  by (simp add: updateFolder_def folder_row_def Let_def
        find_map_upd [where key = folder_id and g = "apply_folderUpdate (now e) u",
                      OF folder_id_apply_folderUpdate])

lemma folder_row_after_update:
  "folder_row (s\<lparr>folders := map (\<lambda>f. if folder_id f = i then apply_folderUpdate t u f else f) (folders s)\<rparr>) j
     = (if j = i then map_option (apply_folderUpdate t u) (folder_row s i) else folder_row s j)"
  by (simp add: folder_row_def
        find_map_upd [where key = folder_id and g = "apply_folderUpdate t u",
                      OF folder_id_apply_folderUpdate])

lemma build_path_cases:
  "build_path e name p s = Inr pth \<Longrightarrow>
     (p = None \<or> p = Some 0 \<longrightarrow> pth = name) \<and>
     (\<forall>n parent. p = Some n \<and> n \<noteq> 0 \<and> folder_row s n = Some parent
         \<longrightarrow> pth = path parent @ ''/'' @ name) \<and>
     (\<forall>n. p = Some n \<and> folder_row s n = None \<longrightarrow> pth = name)"
  by (auto simp: build_path_def getFolderById_def folder_row_def
        split: option.splits if_splits sum.splits)

lemma post_folders_200:
  assumes "post_folders e userId name p s = (Response 200 b, s')"
  shows "\<exists>pth. build_path e name p s = Inr pth \<and>
           b = FolderBody (Some \<lparr>folder_id = next_folder_id s, folder_userId = userId,
                   folder_name = name, parentId = or_null p, path = pth,
                   folder_createdAt = Some (now e), folder_updatedAt = Some (now e)\<rparr>) \<and>
           s' = s\<lparr>folders := folders s @ [\<lparr>folder_id = next_folder_id s, folder_userId = userId,
                   folder_name = name, parentId = or_null p, path = pth,
                   folder_createdAt = Some (now e), folder_updatedAt = Some (now e)\<rparr>],
                  next_folder_id := Suc (next_folder_id s)\<rparr>"
  using assms
  by (auto simp: post_folders_def createFolder_def Let_def split: sum.splits if_splits)

text \<open>
  C5. When \<^verbatim>\<open>POST /api/folders\<close> answers with the created folder, that row is the one
  added to the table; its path is just the new name when no parent is given, and the
  parent's current path, a slash and the new name when the given parent is found (the
  handler looks a parent up only for a non-zero id: serial keys start at 1).
\<close>

theorem post_folders_path:
  assumes "post_folders e userId name p s = (Response 200 (FolderBody (Some row)), s')"
  shows "folders s' = folders s @ [row] \<and> folder_name row = name \<and>
         (p = None \<longrightarrow> path row = name \<and> parentId row = None) \<and>
         (\<forall>n parent. p = Some n \<and> n \<noteq> 0 \<and> folder_row s n = Some parent \<longrightarrow>
            path row = path parent @ ''/'' @ name \<and> parentId row = Some n)"
proof -
  obtain pth where bp: "build_path e name p s = Inr pth"
    and row: "row = \<lparr>folder_id = next_folder_id s, folder_userId = userId,
                   folder_name = name, parentId = or_null p, path = pth,
                   folder_createdAt = Some (now e), folder_updatedAt = Some (now e)\<rparr>"
    and s': "s' = s\<lparr>folders := folders s @ [row], next_folder_id := Suc (next_folder_id s)\<rparr>"
    using post_folders_200 [OF assms] by auto
  show ?thesis
    using build_path_cases [OF bp] by (auto simp: row s' or_null_def)
qed

lemma post_2024:
  "post_folders example_env ''bob'' ''2024'' (Some 2) two_user_db =
     (Response 200 (FolderBody (Some
        \<lparr>folder_id = 3, folder_userId = ''bob'', folder_name = ''2024'', parentId = Some 2,
         path = ''Contracts/Leases/2024'', folder_createdAt = Some 1000,
         folder_updatedAt = Some 1000\<rparr>)),
      two_user_db\<lparr>folders := folders two_user_db @
        [\<lparr>folder_id = 3, folder_userId = ''bob'', folder_name = ''2024'', parentId = Some 2,
          path = ''Contracts/Leases/2024'', folder_createdAt = Some 1000,
          folder_updatedAt = Some 1000\<rparr>],
        next_folder_id := Suc (next_folder_id two_user_db)\<rparr>)"
  by (simp add: post_folders_def build_path_def getFolderById_def createFolder_def
        example_env_def two_user_db_def contracts_folder_def leases_folder_def or_null_def
        Let_def)

theorem post_folders_path_witness:
  "folder_row two_user_db 2 = Some leases_folder \<and>
   path \<lparr>folder_id = 3, folder_userId = ''bob'', folder_name = ''2024'', parentId = Some 2,
         path = ''Contracts/Leases/2024'', folder_createdAt = Some 1000,
         folder_updatedAt = Some 1000\<rparr> = path leases_folder @ ''/'' @ ''2024'' \<and>
   folders (snd (post_folders example_env ''bob'' ''2024'' (Some 2) two_user_db)) =
     [contracts_folder, leases_folder,
      \<lparr>folder_id = 3, folder_userId = ''bob'', folder_name = ''2024'', parentId = Some 2,
         path = ''Contracts/Leases/2024'', folder_createdAt = Some 1000,
         folder_updatedAt = Some 1000\<rparr>]"
proof -
  have row: "folder_row two_user_db 2 = Some leases_folder"
    by (simp add: folder_row_def two_user_db_def contracts_folder_def leases_folder_def)
  have fs: "folders (snd (post_folders example_env ''bob'' ''2024'' (Some 2) two_user_db)) =
     [contracts_folder, leases_folder,
      \<lparr>folder_id = 3, folder_userId = ''bob'', folder_name = ''2024'', parentId = Some 2,
         path = ''Contracts/Leases/2024'', folder_createdAt = Some 1000,
         folder_updatedAt = Some 1000\<rparr>]"
    unfolding post_2024 by (simp add: two_user_db_def)
  show ?thesis
    using post_folders_path [OF post_2024] row fs by simp
qed

lemma put_folders_200:
  assumes "put_folders e i name p s = (Response 200 b, s')"
  shows "\<exists>pth. build_path e name p s = Inr pth \<and>
           b = FolderBody (map_option (apply_folderUpdate (now e)
                  \<lparr>upd_name = Some name, upd_parentId = Some (or_null p), upd_path = Some pth\<rparr>)
                  (folder_row s i)) \<and>
           s' = s\<lparr>folders := map (\<lambda>f. if folder_id f = i then apply_folderUpdate (now e)
                  \<lparr>upd_name = Some name, upd_parentId = Some (or_null p), upd_path = Some pth\<rparr> f
                  else f) (folders s)\<rparr>"
  using assms
  by (auto simp: put_folders_def updateFolder_cases split: sum.splits if_splits)

text \<open>
  C10. When \<^verbatim>\<open>PUT /api/folders/:id\<close> is sent a name and no \<^verbatim>\<open>parentId\<close> (or a falsy one)
  for an existing folder and answers with the updated row, that row has the new name,
  no parent, and the new name alone as its path, whatever its parent and path were
  before; no other folder row changes.
\<close>

theorem put_folders_without_parent:
  assumes "p = None \<or> p = Some 0"
    and "folder_row s i = Some old"
    and "put_folders e i name p s = (Response 200 b, s')"
  shows "b = FolderBody (Some (old\<lparr>folder_name := name, parentId := None, path := name,
                                    folder_updatedAt := Some (now e)\<rparr>)) \<and>
         folder_row s' i = Some (old\<lparr>folder_name := name, parentId := None, path := name,
                                    folder_updatedAt := Some (now e)\<rparr>) \<and>
         (\<forall>j. j \<noteq> i \<longrightarrow> folder_row s' j = folder_row s j)"
proof -
  obtain pth where bp: "build_path e name p s = Inr pth"
    and b: "b = FolderBody (map_option (apply_folderUpdate (now e)
                  \<lparr>upd_name = Some name, upd_parentId = Some (or_null p), upd_path = Some pth\<rparr>)
                  (folder_row s i))"
    and s': "s' = s\<lparr>folders := map (\<lambda>f. if folder_id f = i then apply_folderUpdate (now e)
                  \<lparr>upd_name = Some name, upd_parentId = Some (or_null p), upd_path = Some pth\<rparr> f
                  else f) (folders s)\<rparr>"
    using put_folders_200 [OF assms(3)] by auto
  have pth: "pth = name"
    using build_path_cases [OF bp] assms(1) by blast
  have n: "or_null p = None"
    using assms(1) by (auto simp: or_null_def)
  show ?thesis
    using assms(2) by (simp add: b s' pth n folder_row_after_update apply_folderUpdate_def)
qed


lemma put_rentals:
  "put_folders example_env 2 ''Rentals'' None two_user_db =
     (Response 200 (FolderBody (Some (leases_folder\<lparr>folder_name := ''Rentals'',
         parentId := None, path := ''Rentals'', folder_updatedAt := Some 1000\<rparr>))),
      two_user_db\<lparr>folders := [contracts_folder, leases_folder\<lparr>folder_name := ''Rentals'',
         parentId := None, path := ''Rentals'', folder_updatedAt := Some 1000\<rparr>]\<rparr>)"
  by (simp add: put_folders_def build_path_def updateFolder_def apply_folderUpdate_def
        example_env_def two_user_db_def contracts_folder_def leases_folder_def or_null_def
        Let_def)

theorem put_folders_without_parent_witness:
  "folder_row two_user_db 2 = Some leases_folder \<and> parentId leases_folder = Some 1 \<and>
   path leases_folder = ''Contracts/Leases'' \<and>
   folder_row (snd (put_folders example_env 2 ''Rentals'' None two_user_db)) 2 =
     Some (leases_folder\<lparr>folder_name := ''Rentals'', parentId := None, path := ''Rentals'',
                          folder_updatedAt := Some (now example_env)\<rparr>)"
proof -
  have row: "folder_row two_user_db 2 = Some leases_folder"
    by (simp add: folder_row_def two_user_db_def contracts_folder_def leases_folder_def)
  have p: "(None :: nat option) = None \<or> (None :: nat option) = Some 0"
    by simp
  have run: "put_folders example_env 2 ''Rentals'' None two_user_db =
      (Response 200 (FolderBody (Some (leases_folder\<lparr>folder_name := ''Rentals'',
         parentId := None, path := ''Rentals'', folder_updatedAt := Some 1000\<rparr>))),
       snd (put_folders example_env 2 ''Rentals'' None two_user_db))"
    by (simp add: put_rentals)
  show ?thesis
    using put_folders_without_parent [OF p row run] row
    by (simp add: leases_folder_def)
qed

lemma find_fresh:
  assumes "\<forall>x \<in> set xs. key x < (n::nat)" and "key r = n"
  shows "find (\<lambda>x. key x = n) (xs @ [r]) = Some r"
  using assms by (induction xs) auto

lemma map_upd_fresh:
  assumes "\<forall>x \<in> set xs. key x < (n::nat)"
  shows "map (\<lambda>x. if key x = n then g x else x) xs = xs"
  using assms by (induction xs) auto

text \<open>
  C6. In a database whose serial keys were issued by the counter: create A at root, then B
  under A, then rename A to A2 with no parent. B's path is \<^verbatim>\<open>A/B\<close>; after the rename the
  folder table is as before except for A's own row, which has the new name and path (and
  update time); B's row, read back, is unchanged, so its path is still \<^verbatim>\<open>A/B\<close>. The other
  tables are untouched.
\<close>

theorem rename_keeps_child_path:
  assumes "0 < next_folder_id s0"
    and "\<forall>f \<in> set (folders s0). folder_id f < next_folder_id s0"
    and "post_folders e1 u1 ''A'' None s0 = (Response 200 (FolderBody (Some a)), s1)"
    and "post_folders e2 u2 ''B'' (Some (folder_id a)) s1 = (Response 200 (FolderBody (Some b)), s2)"
    and "put_folders e3 (folder_id a) ''A2'' None s2 = (Response 200 body3, s3)"
  shows "path a = ''A'' \<and> path b = ''A/B'' \<and>
         folders s3 = folders s0 @
           [a\<lparr>folder_name := ''A2'', path := ''A2'', folder_updatedAt := Some (now e3)\<rparr>, b] \<and>
         folder_row s3 (folder_id b) = Some b \<and>
         files s3 = files s0 \<and> aiCommands s3 = aiCommands s0"
proof -
  let ?n = "next_folder_id s0"
  obtain pa where bpa: "build_path e1 ''A'' None s0 = Inr pa"
    and a: "a = \<lparr>folder_id = ?n, folder_userId = u1, folder_name = ''A'',
                 parentId = or_null None, path = pa,
                 folder_createdAt = Some (now e1), folder_updatedAt = Some (now e1)\<rparr>"
    and s1: "s1 = s0\<lparr>folders := folders s0 @ [a], next_folder_id := Suc ?n\<rparr>"
    using post_folders_200 [OF assms(3)] by auto
  have pa: "pa = ''A''"
    using build_path_cases [OF bpa] by simp
  have ida: "folder_id a = ?n" and para: "parentId a = None" and patha: "path a = ''A''"
    by (simp_all add: a pa or_null_def)
  have rowa: "folder_row s1 ?n = Some a"
    using find_fresh [where key = folder_id, OF assms(2) ida] by (simp add: folder_row_def s1)
  obtain pb where bpb: "build_path e2 ''B'' (Some ?n) s1 = Inr pb"
    and b: "b = \<lparr>folder_id = Suc ?n, folder_userId = u2, folder_name = ''B'',
                 parentId = or_null (Some ?n), path = pb,
                 folder_createdAt = Some (now e2), folder_updatedAt = Some (now e2)\<rparr>"
    and s2: "s2 = s1\<lparr>folders := folders s1 @ [b], next_folder_id := Suc (Suc ?n)\<rparr>"
    using post_folders_200 [OF assms(4)] by (auto simp: ida s1)
  have pb: "pb = ''A/B''"
    using build_path_cases [OF bpb] rowa assms(1) patha by simp
  have idb: "folder_id b = Suc ?n" and pathb: "path b = ''A/B''"
    by (simp_all add: b pb)
  obtain pr where bpr: "build_path e3 ''A2'' None s2 = Inr pr"
    and s3: "s3 = s2\<lparr>folders := map (\<lambda>f. if folder_id f = ?n then apply_folderUpdate (now e3)
                  \<lparr>upd_name = Some ''A2'', upd_parentId = Some (or_null None), upd_path = Some pr\<rparr> f
                  else f) (folders s2)\<rparr>"
    using put_folders_200 [OF assms(5)] by (auto simp: ida)
  have pr: "pr = ''A2''"
    using build_path_cases [OF bpr] by simp
  have upd_a: "apply_folderUpdate (now e3)
                  \<lparr>upd_name = Some ''A2'', upd_parentId = Some (or_null None), upd_path = Some pr\<rparr> a
               = a\<lparr>folder_name := ''A2'', path := ''A2'', folder_updatedAt := Some (now e3)\<rparr>"
    using para by (simp add: apply_folderUpdate_def pr or_null_def)
  have fs3: "folders s3 = folders s0 @
           [a\<lparr>folder_name := ''A2'', path := ''A2'', folder_updatedAt := Some (now e3)\<rparr>, b]"
    using map_upd_fresh [where key = folder_id, OF assms(2)]
    by (simp add: s3 s2 s1 ida idb upd_a)
  have "find (\<lambda>f. folder_id f = Suc ?n)
          ((folders s0 @ [a\<lparr>folder_name := ''A2'', path := ''A2'',
                             folder_updatedAt := Some (now e3)\<rparr>]) @ [b]) = Some b"
    using assms(2) ida idb by (intro find_fresh) auto
  then have rowb: "folder_row s3 (folder_id b) = Some b"
    by (simp add: folder_row_def fs3 idb)
  show ?thesis
    using patha pathb fs3 rowb by (simp add: s3 s2 s1)
qed


lemma post_A:
  "post_folders example_env ''alice'' ''A'' None init_db =
     (Response 200 (FolderBody (Some folder_A)), db_A)"
  by (simp add: post_folders_def build_path_def createFolder_def example_env_def init_db_def
        or_null_def Let_def folder_A_def db_A_def)

lemma post_B:
  "post_folders example_env ''alice'' ''B'' (Some (folder_id folder_A)) db_A =
     (Response 200 (FolderBody (Some folder_B)), db_AB)"
  by (simp add: post_folders_def build_path_def getFolderById_def createFolder_def
        example_env_def init_db_def or_null_def Let_def folder_A_def folder_B_def
        db_A_def db_AB_def)

lemma put_A2:
  "put_folders example_env (folder_id folder_A) ''A2'' None db_AB =
     (Response 200 (FolderBody (Some (folder_A\<lparr>folder_name := ''A2'', path := ''A2''\<rparr>))),
      db_AB\<lparr>folders := [folder_A\<lparr>folder_name := ''A2'', path := ''A2''\<rparr>, folder_B]\<rparr>)"
  by (simp add: put_folders_def build_path_def updateFolder_def apply_folderUpdate_def
        example_env_def init_db_def or_null_def Let_def folder_A_def folder_B_def db_AB_def)

theorem rename_keeps_child_path_witness:
  "path folder_B = ''A/B'' \<and>
   folder_row (snd (put_folders example_env (folder_id folder_A) ''A2'' None db_AB))
     (folder_id folder_B) = Some folder_B \<and>
   folders (snd (put_folders example_env (folder_id folder_A) ''A2'' None db_AB)) =
     [folder_A\<lparr>folder_name := ''A2'', path := ''A2'',
               folder_updatedAt := Some (now example_env)\<rparr>, folder_B]"
proof -
  have n: "0 < next_folder_id init_db"
    by (simp add: init_db_def)
  have k: "\<forall>f \<in> set (folders init_db). folder_id f < next_folder_id init_db"
    by (simp add: init_db_def)
  have r: "put_folders example_env (folder_id folder_A) ''A2'' None db_AB =
      (Response 200 (FolderBody (Some (folder_A\<lparr>folder_name := ''A2'', path := ''A2''\<rparr>))),
       snd (put_folders example_env (folder_id folder_A) ''A2'' None db_AB))"
    by (simp add: put_A2)
  have e: "folders init_db = []"
    by (simp add: init_db_def)
  show ?thesis
    using rename_keeps_child_path [OF n k post_A post_B r] e by simp
qed

text \<open>
  The delete handler refuses with 400 and leaves the database as it was when a file
  references the folder, or a folder of the requesting user does.
\<close>

lemma delete_folders_blocks:
  assumes "\<not> db_throws e (GetFilesByFolderId i)" "\<not> db_throws e (GetFoldersByUserId userId)"
    and "(\<exists>f \<in> set (files s). folderId f = Some i) \<or>
         (\<exists>f \<in> set (folders s). folder_userId f = userId \<and> parentId f = Some i)"
  shows "delete_folders e userId i s =
           (Response 400 (Message ''Cannot delete folder with files or subfolders''), s)"
proof -
  have "filter (\<lambda>f. folderId f = Some i) (files s) \<noteq> [] \<or>
        filter (\<lambda>f. parentId f = Some i) (filter (\<lambda>f. folder_userId f = userId) (folders s)) \<noteq> []"
    using assms(3) by (auto simp: filter_empty_conv)
  then show ?thesis
    using assms(1,2)
    by (auto simp: delete_folders_def getFilesByFolderId_def getFoldersByUserId_def Let_def)
qed

lemma post_contracts:
  "post_folders example_env ''alice'' ''Contracts'' None init_db =
     (Response 200 (FolderBody (Some contracts_folder)),
      init_db\<lparr>folders := [contracts_folder], next_folder_id := 2\<rparr>)"
  by (simp add: post_folders_def build_path_def createFolder_def example_env_def init_db_def
        or_null_def Let_def contracts_folder_def)

lemma post_leases:
  "post_folders example_env ''bob'' ''Leases'' (Some 1)
     (init_db\<lparr>folders := [contracts_folder], next_folder_id := 2\<rparr>) =
     (Response 200 (FolderBody (Some leases_folder)), two_user_db)"
  by (simp add: post_folders_def build_path_def getFolderById_def createFolder_def
        example_env_def init_db_def or_null_def Let_def contracts_folder_def
        leases_folder_def two_user_db_def)

lemma delete_contracts:
  "delete_folders example_env ''alice'' 1 two_user_db =
     (Response 200 Success, two_user_db\<lparr>folders := [leases_folder]\<rparr>)"
  by (simp add: delete_folders_def getFilesByFolderId_def getFoldersByUserId_def
        deleteFolder_def example_env_def two_user_db_def contracts_folder_def
        leases_folder_def Let_def)

text \<open>
  C7 fails on the code where the subfolder belongs to another user. bob creates Leases
  under alice's folder 1; alice then deletes folder 1. The handler searches for
  subfolders among alice's folders only, finds none, deletes the folder and answers 200;
  the subfolder still names folder 1 as its parent.
\<close>

theorem delete_folders_foreign_subfolder:
  "post_folders example_env ''bob'' ''Leases'' (Some 1)
     (snd (post_folders example_env ''alice'' ''Contracts'' None init_db)) =
     (Response 200 (FolderBody (Some leases_folder)), two_user_db) \<and>
   folder_row two_user_db 1 = Some contracts_folder \<and>
   folder_userId contracts_folder = ''alice'' \<and>
   parentId leases_folder = Some 1 \<and> leases_folder \<in> set (folders two_user_db) \<and>
   delete_folders example_env ''alice'' 1 two_user_db =
     (Response 200 Success, two_user_db\<lparr>folders := [leases_folder]\<rparr>) \<and>
   folder_row (snd (delete_folders example_env ''alice'' 1 two_user_db)) 1 = None"
proof -
  have a: "post_folders example_env ''bob'' ''Leases'' (Some 1)
     (snd (post_folders example_env ''alice'' ''Contracts'' None init_db)) =
     (Response 200 (FolderBody (Some leases_folder)), two_user_db)"
    by (simp only: post_contracts snd_conv post_leases)
  have b: "folder_row two_user_db 1 = Some contracts_folder"
    by (simp add: folder_row_def two_user_db_def contracts_folder_def)
  have c: "folder_userId contracts_folder = ''alice''"
    by (simp add: contracts_folder_def)
  have d: "parentId leases_folder = Some 1"
    by (simp add: leases_folder_def)
  have e: "leases_folder \<in> set (folders two_user_db)"
    by (simp add: two_user_db_def)
  have f: "folder_row (snd (delete_folders example_env ''alice'' 1 two_user_db)) 1 = None"
    unfolding delete_contracts by (simp add: folder_row_def leases_folder_def)
  show ?thesis
    using a b c d e f delete_contracts by blast
qed

section \<open>Upload\<close>

lemma upload_notes:
  "post_files_upload example_env ''alice'' [notes_upload] bare_body init_db =
     (Response 200 (FilesBody [uploaded_notes]),
      init_db\<lparr>files := [uploaded_notes], next_file_id := 2\<rparr>,
      [ProcessFile uploaded_notes no_options])"
  by (simp add: post_files_upload_def createFile_def upload_options_def default_true_def
        strict_eq_str_def example_env_def init_db_def notes_upload_def bare_body_def
        uploaded_notes_def no_options_def Let_def)

lemma steps_no_options:
  "pipeline_steps example_env uploaded_notes no_options = (processed_update [] [] (JArr []), [])"
  by (simp add: pipeline_steps_def ocr_step_def summary_step_def tags_step_def
        no_options_def Let_def)

text \<open>
  C4 fails on the code. With the three option fields omitted, the defaults are the
  boolean true, which is not the string \<^verbatim>\<open>'true'\<close>: the pipeline is started with all
  three options disabled, and it then calls no collaborator and writes empty results.
  The response does hold the created record with status processing.
\<close>

theorem upload_without_options_disables_processing:
  "upload_options \<lparr>body_folderId = fid, body_processOcr = None,
                    body_generateSummary = None, body_autoTag = None\<rparr> =
     \<lparr>processOcr = False, generateSummary = False, autoTag = False\<rparr> \<and>
   post_files_upload example_env ''alice'' [notes_upload] bare_body init_db =
     (Response 200 (FilesBody [uploaded_notes]),
      init_db\<lparr>files := [uploaded_notes], next_file_id := 2\<rparr>,
      [ProcessFile uploaded_notes no_options]) \<and>
   processingStatus uploaded_notes = Some ''processing'' \<and>
   snd (snd (run_task example_env (ProcessFile uploaded_notes no_options)
               (init_db\<lparr>files := [uploaded_notes], next_file_id := 2\<rparr>))) =
     [StorageUpdateFile 1 (processed_update [] [] (JArr []))]"
proof -
  have "snd (snd (processFile example_env uploaded_notes no_options
               (init_db\<lparr>files := [uploaded_notes], next_file_id := 2\<rparr>))) =
     [StorageUpdateFile 1 (processed_update [] [] (JArr []))]"
    by (subst processFile_cases [OF steps_no_options])
       (simp add: example_env_def uploaded_notes_def)
  then show ?thesis
    by (simp add: upload_notes)
       (simp add: upload_options_def default_true_def strict_eq_str_def uploaded_notes_def)
qed

section \<open>AI commands\<close>

lemma cmd_id_apply_aiCommandUpdate: "cmd_id (apply_aiCommandUpdate u c) = cmd_id c"
  by (simp add: apply_aiCommandUpdate_def)

lemma updateAiCommand_cases:
  "updateAiCommand e i u s =
     (if db_throws e (UpdateAiCommand i u) then Inl (Error ''db'')
      else Inr (map_option (apply_aiCommandUpdate u) (cmd_row s i),
                s\<lparr>aiCommands := map (\<lambda>c. if cmd_id c = i then apply_aiCommandUpdate u c else c)
                                      (aiCommands s)\<rparr>))"
  by (simp add: updateAiCommand_def cmd_row_def Let_def
        find_map_upd [where key = cmd_id and g = "apply_aiCommandUpdate u",
                      OF cmd_id_apply_aiCommandUpdate])

lemma cmd_row_after_update:
  "cmd_row (s\<lparr>aiCommands := map (\<lambda>c. if cmd_id c = i then apply_aiCommandUpdate u c else c)
                                 (aiCommands s)\<rparr>) j
     = (if j = i then map_option (apply_aiCommandUpdate u) (cmd_row s i) else cmd_row s j)"
  by (simp add: cmd_row_def
        find_map_upd [where key = cmd_id and g = "apply_aiCommandUpdate u",
                      OF cmd_id_apply_aiCommandUpdate])

lemma processCommand_parsed:
  assumes "command_result e cmd = Inr res"
  shows "processCommand e i cmd userId s =
     (if \<not> db_throws e (UpdateAiCommand i (completed_update res))
      then (Resolved,
            s\<lparr>aiCommands := map (\<lambda>c. if cmd_id c = i
                     then apply_aiCommandUpdate (completed_update res) c else c) (aiCommands s)\<rparr>,
            [ChatCreate (CommandPrompt cmd), StorageUpdateAiCommand i (completed_update res)])
      else if \<not> db_throws e (UpdateAiCommand i failed_update)
      then (Resolved,
            s\<lparr>aiCommands := map (\<lambda>c. if cmd_id c = i
                     then apply_aiCommandUpdate failed_update c else c) (aiCommands s)\<rparr>,
            [ChatCreate (CommandPrompt cmd), StorageUpdateAiCommand i (completed_update res),
             StorageUpdateAiCommand i failed_update])
      else (Rejected (Error ''db''), s,
            [ChatCreate (CommandPrompt cmd), StorageUpdateAiCommand i (completed_update res),
             StorageUpdateAiCommand i failed_update]))"
  using assms by (simp add: processCommand_def processCommand_try_def updateAiCommand_cases)

lemma processCommand_unparsed:
  assumes "command_result e cmd = Inl err"
  shows "processCommand e i cmd userId s =
     (if \<not> db_throws e (UpdateAiCommand i failed_update)
      then (Resolved,
            s\<lparr>aiCommands := map (\<lambda>c. if cmd_id c = i
                     then apply_aiCommandUpdate failed_update c else c) (aiCommands s)\<rparr>,
            [ChatCreate (CommandPrompt cmd), StorageUpdateAiCommand i failed_update])
      else (Rejected (Error ''db''), s,
            [ChatCreate (CommandPrompt cmd), StorageUpdateAiCommand i failed_update]))"
  using assms by (simp add: processCommand_def processCommand_try_def updateAiCommand_cases)

lemma post_ai_command_200:
  assumes "post_ai_command e userId cmd s = (Response 200 b, s1, tasks)"
  shows "b = CommandBody \<lparr>cmd_id = next_cmd_id s, cmd_userId = userId, command = cmd,
                result = JNull, status = Some ''processing'', cmd_createdAt = Some (now e)\<rparr> \<and>
         s1 = s\<lparr>aiCommands := aiCommands s @
                  [\<lparr>cmd_id = next_cmd_id s, cmd_userId = userId, command = cmd,
                    result = JNull, status = Some ''processing'', cmd_createdAt = Some (now e)\<rparr>],
                next_cmd_id := Suc (next_cmd_id s)\<rparr> \<and>
         tasks = [ProcessCommand (next_cmd_id s) cmd userId]"
  using assms
  by (auto simp: post_ai_command_def createAiCommand_def Let_def split: sum.splits if_splits)

text \<open>
  C8, as the code has it. In a database whose command keys were issued by the counter,
  let \<^verbatim>\<open>POST /api/ai/command\<close> answer with the created record, and let the call it
  started run. The record is created with status processing and the started call is
  \<^verbatim>\<open>processCommand\<close> for it. That call asks the language model once. When the answer
  parses and the write of completed is accepted, that is the only write and the record
  is completed with the parsed result. When the call or the parse fails and the write
  of failed is accepted, that is the only write and the record is failed with the
  error payload. When the answer parses but the write of completed throws, failed is
  written after it and the record is failed with the error payload. When the write of
  failed throws as well, the call rejects and the database is as it was; the call
  rejects in no other case.
\<close>

theorem ai_command_lifecycle:
  assumes "\<forall>x \<in> set (aiCommands s). cmd_id x < next_cmd_id s"
    and "post_ai_command e userId cmd s = (Response 200 (CommandBody c), s1, tasks)"
    and "run_task e' (ProcessCommand (cmd_id c) cmd userId) s1 = (out, s2, tr)"
  shows "status c = Some ''processing'' \<and> tasks = [ProcessCommand (cmd_id c) cmd userId] \<and>
         cmd_row s1 (cmd_id c) = Some c \<and>
         filter (\<lambda>ev. \<not> is_write ev) tr = [ChatCreate (CommandPrompt cmd)] \<and>
         (\<forall>res. command_result e' cmd = Inr res \<and>
                \<not> db_throws e' (UpdateAiCommand (cmd_id c) (completed_update res)) \<longrightarrow>
            out = Resolved \<and>
            filter is_write tr = [StorageUpdateAiCommand (cmd_id c) (completed_update res)] \<and>
            cmd_row s2 (cmd_id c) = Some (c\<lparr>result := res, status := Some ''completed''\<rparr>)) \<and>
         (\<forall>err. command_result e' cmd = Inl err \<and>
                \<not> db_throws e' (UpdateAiCommand (cmd_id c) failed_update) \<longrightarrow>
            out = Resolved \<and>
            filter is_write tr = [StorageUpdateAiCommand (cmd_id c) failed_update] \<and>
            cmd_row s2 (cmd_id c) =
              Some (c\<lparr>result := JObj [(''error'', JStr ''Failed to process command'')],
                      status := Some ''failed''\<rparr>)) \<and>
         (\<forall>res. command_result e' cmd = Inr res \<and>
                db_throws e' (UpdateAiCommand (cmd_id c) (completed_update res)) \<and>
                \<not> db_throws e' (UpdateAiCommand (cmd_id c) failed_update) \<longrightarrow>
            out = Resolved \<and>
            filter is_write tr = [StorageUpdateAiCommand (cmd_id c) (completed_update res),
                                  StorageUpdateAiCommand (cmd_id c) failed_update] \<and>
            cmd_row s2 (cmd_id c) =
              Some (c\<lparr>result := JObj [(''error'', JStr ''Failed to process command'')],
                      status := Some ''failed''\<rparr>)) \<and>
         (\<forall>res. command_result e' cmd = Inr res \<and>
                db_throws e' (UpdateAiCommand (cmd_id c) (completed_update res)) \<and>
                db_throws e' (UpdateAiCommand (cmd_id c) failed_update) \<longrightarrow>
            out = Rejected (Error ''db'') \<and> s2 = s1) \<and>
         (\<forall>err. command_result e' cmd = Inl err \<and>
                db_throws e' (UpdateAiCommand (cmd_id c) failed_update) \<longrightarrow>
            out = Rejected (Error ''db'') \<and> s2 = s1) \<and>
         (out \<noteq> Resolved \<longrightarrow>
            db_throws e' (UpdateAiCommand (cmd_id c) failed_update) \<and> s2 = s1)"
proof -
  let ?c = "\<lparr>cmd_id = next_cmd_id s, cmd_userId = userId, command = cmd,
                result = JNull, status = Some ''processing'', cmd_createdAt = Some (now e)\<rparr>"
  have c: "c = ?c"
    and s1: "s1 = s\<lparr>aiCommands := aiCommands s @ [c], next_cmd_id := Suc (next_cmd_id s)\<rparr>"
    and tasks: "tasks = [ProcessCommand (next_cmd_id s) cmd userId]"
    using post_ai_command_200 [OF assms(2)] by auto
  have idc: "cmd_id c = next_cmd_id s"
    by (simp add: c)
  have row1: "cmd_row s1 (cmd_id c) = Some c"
    using find_fresh [where key = cmd_id, OF assms(1) idc] by (simp add: cmd_row_def s1 idc)
  have run: "processCommand e' (cmd_id c) cmd userId s1 = (out, s2, tr)"
    using assms(3) by simp
  have first: "status c = Some ''processing'' \<and> tasks = [ProcessCommand (cmd_id c) cmd userId]"
    by (simp add: c tasks)
  show ?thesis
  proof (cases "command_result e' cmd")
    case (Inr res)
    note pc = processCommand_parsed [OF Inr, of "cmd_id c" userId s1]
    show ?thesis
      using run first row1 Inr
      by (auto simp: pc cmd_row_after_update is_write_def apply_aiCommandUpdate_def
            completed_update_def failed_update_def split: if_splits)
  next
    case (Inl err)
    note pc = processCommand_unparsed [OF Inl, of "cmd_id c" userId s1]
    show ?thesis
      using run first row1 Inl
      by (auto simp: pc cmd_row_after_update is_write_def apply_aiCommandUpdate_def
            failed_update_def split: if_splits)
  qed
qed


lemma post_find_leases:
  "db_throws e = refuses_command_updates \<or> db_throws e = (\<lambda>op. False) \<Longrightarrow> now e = 1000 \<Longrightarrow>
   post_ai_command e ''alice'' ''find leases'' init_db =
     (Response 200 (CommandBody first_command), db_first_command,
      [ProcessCommand (cmd_id first_command) ''find leases'' ''alice''])"
  by (auto simp: post_ai_command_def createAiCommand_def init_db_def first_command_def
        db_first_command_def refuses_command_updates_def Let_def)

lemma result_find_leases:
  "chat_create e = example_chat \<Longrightarrow> JSON_parse e = example_parse \<Longrightarrow>
   command_result e ''find leases'' = Inr (JObj [])"
  by (simp add: command_result_def first_content_def parse_content_def example_chat_def
        example_parse_def)

text \<open>
  C8 as stated fails: the answer parses, the database refuses both updates, and the
  record is never updated; it stays as created, with status processing.
\<close>

theorem command_never_updated_counterexample:
  "post_ai_command command_write_failing_env ''alice'' ''find leases'' init_db =
     (Response 200 (CommandBody first_command), db_first_command,
      [ProcessCommand (cmd_id first_command) ''find leases'' ''alice'']) \<and>
   command_result command_write_failing_env ''find leases'' = Inr (JObj []) \<and>
   run_task command_write_failing_env
       (ProcessCommand (cmd_id first_command) ''find leases'' ''alice'') db_first_command =
     (Rejected (Error ''db''), db_first_command,
      [ChatCreate (CommandPrompt ''find leases''),
       StorageUpdateAiCommand (cmd_id first_command) (completed_update (JObj [])),
       StorageUpdateAiCommand (cmd_id first_command) failed_update]) \<and>
   cmd_row db_first_command (cmd_id first_command) = Some first_command \<and>
   status first_command = Some ''processing''"
proof -
  have a: "post_ai_command command_write_failing_env ''alice'' ''find leases'' init_db =
     (Response 200 (CommandBody first_command), db_first_command,
      [ProcessCommand (cmd_id first_command) ''find leases'' ''alice''])"
    by (rule post_find_leases) (simp_all add: command_write_failing_env_def)
  have b: "command_result command_write_failing_env ''find leases'' = Inr (JObj [])"
    by (rule result_find_leases) (simp_all add: command_write_failing_env_def)
  have c: "run_task command_write_failing_env
       (ProcessCommand (cmd_id first_command) ''find leases'' ''alice'') db_first_command =
     (Rejected (Error ''db''), db_first_command,
      [ChatCreate (CommandPrompt ''find leases''),
       StorageUpdateAiCommand (cmd_id first_command) (completed_update (JObj [])),
       StorageUpdateAiCommand (cmd_id first_command) failed_update])"
    by (simp add: processCommand_parsed [OF b])
       (simp add: command_write_failing_env_def refuses_command_updates_def)
  have d: "cmd_row db_first_command (cmd_id first_command) = Some first_command"
    by (simp add: cmd_row_def db_first_command_def)
  have e: "status first_command = Some ''processing''"
    by (simp add: first_command_def)
  show ?thesis
    using a b c d e by blast
qed

theorem ai_command_lifecycle_witness:
  "command_result example_env ''find leases'' = Inr (JObj []) \<and>
   fst (run_task example_env
          (ProcessCommand (cmd_id first_command) ''find leases'' ''alice'') db_first_command)
     = Resolved \<and>
   cmd_row (fst (snd (run_task example_env
          (ProcessCommand (cmd_id first_command) ''find leases'' ''alice'') db_first_command)))
       (cmd_id first_command)
     = Some (first_command\<lparr>result := JObj [], status := Some ''completed''\<rparr>)"
proof -
  let ?t = "ProcessCommand (cmd_id first_command) ''find leases'' ''alice''"
  let ?r = "run_task example_env ?t db_first_command"
  have k: "\<forall>x \<in> set (aiCommands init_db). cmd_id x < next_cmd_id init_db"
    by (simp add: init_db_def)
  have a: "post_ai_command example_env ''alice'' ''find leases'' init_db =
     (Response 200 (CommandBody first_command), db_first_command, [?t])"
    by (rule post_find_leases) (simp_all add: example_env_def)
  have b: "command_result example_env ''find leases'' = Inr (JObj [])"
    by (rule result_find_leases) (simp_all add: example_env_def)
  have r: "?r = (fst ?r, fst (snd ?r), snd (snd ?r))"
    by simp
  have w: "\<not> db_throws example_env
             (UpdateAiCommand (cmd_id first_command) (completed_update (JObj [])))"
    by (simp add: example_env_def)
  show ?thesis
    using ai_command_lifecycle [OF k a r] b w by blast
qed

end
